theory Spec2Isabelle
  imports Main "HOL-Library.Sublist"
begin

section \<open>Strings\<close>

text \<open>
  JavaScript strings are modelled as \<^typ>\<open>string\<close>. The service only ever searches for
  ASCII markers, so \<open>toLowerCase\<close> is the ASCII case mapping; \<open>includes\<close>,
  \<open>endsWith\<close> and \<open>join\<close> are the methods of \<open>String.prototype\<close> and
  \<open>Array.prototype\<close> the source calls.
\<close>

definition toLowerCase_char :: "char \<Rightarrow> char" where
  "toLowerCase_char c =
     (case map_of (zip ''ABCDEFGHIJKLMNOPQRSTUVWXYZ'' ''abcdefghijklmnopqrstuvwxyz'') c of
        None \<Rightarrow> c
      | Some l \<Rightarrow> l)"

definition toLowerCase :: "string \<Rightarrow> string" where
  "toLowerCase s = map toLowerCase_char s"

fun startsWith :: "string \<Rightarrow> string \<Rightarrow> bool" where
  "startsWith s [] = True"
| "startsWith [] (c # t) = False"
| "startsWith (d # s) (c # t) = (d = c \<and> startsWith s t)"

fun str_includes :: "string \<Rightarrow> string \<Rightarrow> bool" where
  "str_includes [] t = (t = [])"
| "str_includes (c # s) t = (startsWith (c # s) t \<or> str_includes s t)"

definition endsWith :: "string \<Rightarrow> string \<Rightarrow> bool" where
  "endsWith s t = startsWith (rev s) (rev t)"

fun join :: "string \<Rightarrow> string list \<Rightarrow> string" where
  "join sep [] = []"
| "join sep [x] = x"
| "join sep (x # y # xs) = x @ sep @ join sep (y # xs)"

definition nl :: string where
  "nl = [CHR 0x0A]"

section \<open>Errors, provider requests and asynchronous tasks\<close>

text \<open>
  A thrown JavaScript value is an \<open>Error\<close> whose \<open>message\<close> may be undefined.
\<close>

datatype error = Error (message: "string option")

text \<open>\<open>x || d\<close> on a possibly undefined string: undefined and the empty string are falsy.\<close>

definition or_else :: "string option \<Rightarrow> string \<Rightarrow> string" where
  "or_else x d = (case x of None \<Rightarrow> d | Some s \<Rightarrow> if s = [] then d else s)"

text \<open>A possibly undefined string interpolated into a template literal.\<close>

definition interpolate :: "string option \<Rightarrow> string" where
  "interpolate x = (case x of None \<Rightarrow> ''undefined'' | Some s \<Rightarrow> s)"

datatype part = InlineData (mimeType: string) (inline_data: string) | TextPart (part_text: string)

datatype contents = Parts "part list" | Prompt string

datatype schema = STRING | ARRAY schema | OBJECT "(string \<times> schema) list" "string list"

record config =
  responseMimeType :: string
  responseSchema :: schema

record request =
  model :: string
  contents :: contents
  config :: "config option"

record GenerateContentResponse =
  response_text :: "string option"

text \<open>
  Everything observable that a task does is appended to a trace: each request sent to the
  provider (\<open>ai.models.generateContent\<close>) and each \<open>setTimeout\<close> pause, in
  program order. A task takes the trace so far and returns its result (\<open>Inl\<close> for a
  rejected promise) with the extended trace.
\<close>

datatype event = Call request | Sleep int

type_synonym trace = "event list"

type_synonym 'a task = "trace \<Rightarrow> (error + 'a) \<times> trace"

text \<open>
  The provider is a black box: its answer to a request may depend on everything that
  happened before (quota used up, time waited).
\<close>

type_synonym provider = "trace \<Rightarrow> request \<Rightarrow> error + GenerateContentResponse"

definition generateContent :: "provider \<Rightarrow> request \<Rightarrow> GenerateContentResponse task" where
  "generateContent ai req tr = (ai tr req, tr @ [Call req])"

definition task_return :: "'a \<Rightarrow> 'a task" where
  "task_return v tr = (Inr v, tr)"

definition task_throw :: "error \<Rightarrow> 'a task" where
  "task_throw e tr = (Inl e, tr)"

definition task_bind :: "'a task \<Rightarrow> ('a \<Rightarrow> 'b task) \<Rightarrow> 'b task" where
  "task_bind m f tr = (case m tr of (Inl e, tr') \<Rightarrow> (Inl e, tr') | (Inr v, tr') \<Rightarrow> f v tr')"

definition try_catch :: "'a task \<Rightarrow> (error \<Rightarrow> 'a task) \<Rightarrow> 'a task" where
  "try_catch m handler tr = (case m tr of (Inl e, tr') \<Rightarrow> handler e tr' | (Inr v, tr') \<Rightarrow> (Inr v, tr'))"

section \<open>The retry governor\<close>

text \<open>
  The service file holds two listings of \<open>callWithRetry\<close>. The first (lines 25--44)
  also looks for \<open>rate limit\<close>; the second (lines 268--283) does not. Index 1 and 2
  name the listing throughout.
\<close>

definition isRetryable1 :: "error \<Rightarrow> bool" where
  "isRetryable1 e =
     (let msg = (case message e of None \<Rightarrow> [] | Some m \<Rightarrow> toLowerCase m)
      in str_includes msg ''429'' \<or>
         str_includes msg ''503'' \<or>
         str_includes msg ''quota'' \<or>
         str_includes msg ''resource exhausted'' \<or>
         str_includes msg ''rate limit'')"

definition isRetryable2 :: "error \<Rightarrow> bool" where
  "isRetryable2 e =
     (let msg = (case message e of None \<Rightarrow> [] | Some m \<Rightarrow> toLowerCase m)
      in str_includes msg ''429'' \<or> str_includes msg ''503'' \<or> str_includes msg ''quota'' \<or>
         str_includes msg ''resource exhausted'')"

function callWithRetry1 :: "'a task \<Rightarrow> int \<Rightarrow> int \<Rightarrow> 'a task" where
  "callWithRetry1 fn retries delayMs tr =
     (case fn tr of
        (Inr v, tr') \<Rightarrow> (Inr v, tr')
      | (Inl e, tr') \<Rightarrow>
          if isRetryable1 e \<and> retries > 0
          then callWithRetry1 fn (retries - 1) (delayMs * 2) (tr' @ [Sleep delayMs])
          else (Inl e, tr'))"
  by pat_completeness auto
termination
  by (relation "measure (\<lambda>(fn, retries, delayMs, tr). nat retries)") auto

function callWithRetry2 :: "'a task \<Rightarrow> int \<Rightarrow> int \<Rightarrow> 'a task" where
  "callWithRetry2 fn retries delayMs tr =
     (case fn tr of
        (Inr v, tr') \<Rightarrow> (Inr v, tr')
      | (Inl e, tr') \<Rightarrow>
          if isRetryable2 e \<and> retries > 0
          then callWithRetry2 fn (retries - 1) (delayMs * 2) (tr' @ [Sleep delayMs])
          else (Inl e, tr'))"
  by pat_completeness auto
termination
  by (relation "measure (\<lambda>(fn, retries, delayMs, tr). nat retries)") auto

section \<open>Uploaded files and the attachment preparer\<close>

record UploadedFile =
  name :: string
  type :: string
  data :: string

text \<open>
  The browser and runtime functions the service calls but does not define: \<open>atob\<close>
  (\<open>None\<close> when it throws on malformed input), \<open>TextDecoder.decode\<close> and
  \<open>JSON.parse\<close> (\<open>Inl\<close> the \<open>SyntaxError\<close> it throws).
\<close>

datatype json =
  JNull | JBool bool | JNumber int | JString string | JArray "json list" | JObject "(string \<times> json) list"

record host =
  atob :: "string \<Rightarrow> string option"
  TextDecoder_decode :: "string \<Rightarrow> string"
  JSON_parse :: "string \<Rightarrow> error + json"

text \<open>
  \<open>b64.replace(/^data:.+;base64,/, '')\<close>: the dot matches any character but a line
  terminator, and the greedy \<open>.+\<close> makes the match end at the last \<open>;base64,\<close>
  it can reach.
\<close>

definition isLineTerminator :: "char \<Rightarrow> bool" where
  "isLineTerminator c = (c = CHR 0x0A \<or> c = CHR 0x0D)"

fun dot_star_then :: "string \<Rightarrow> string \<Rightarrow> string option" where
  "dot_star_then lit [] = (if lit = [] then Some [] else None)"
| "dot_star_then lit (c # s) =
     (case (if isLineTerminator c then None else dot_star_then lit s) of
        Some r \<Rightarrow> Some r
      | None \<Rightarrow> if startsWith (c # s) lit then Some (drop (length lit) (c # s)) else None)"

definition dot_plus_then :: "string \<Rightarrow> string \<Rightarrow> string option" where
  "dot_plus_then lit s =
     (case s of [] \<Rightarrow> None | c # r \<Rightarrow> if isLineTerminator c then None else dot_star_then lit r)"

definition cleanBase64 :: "string \<Rightarrow> string" where
  "cleanBase64 b64 =
     (if startsWith b64 ''data:''
      then (case dot_plus_then '';base64,'' (drop 5 b64) of None \<Rightarrow> b64 | Some r \<Rightarrow> r)
      else b64)"

definition decodeBase64Text :: "host \<Rightarrow> string \<Rightarrow> string" where
  "decodeBase64Text h b64 =
     (case atob h b64 of None \<Rightarrow> [] | Some binaryString \<Rightarrow> TextDecoder_decode h binaryString)"

primrec filter_non_null :: "'a option list \<Rightarrow> 'a list" where
  "filter_non_null [] = []"
| "filter_non_null (p # ps) = (case p of None \<Rightarrow> filter_non_null ps | Some x \<Rightarrow> x # filter_non_null ps)"

text \<open>First listing, lines 46--64.\<close>

definition prepareFileParts :: "host \<Rightarrow> UploadedFile list \<Rightarrow> part list" where
  "prepareFileParts h files =
     filter_non_null
       (map (\<lambda>f.
          let d = cleanBase64 (data f)
          in if str_includes (type f) ''pdf''
             then Some (InlineData ''application/pdf'' d)
             else if str_includes (type f) ''text'' \<or> endsWith (name f) ''.txt'' \<or> endsWith (name f) ''.md''
             then Some (TextPart (''[Source Document: '' @ name f @ '']'' @ nl @ decodeBase64Text h d @ nl @ ''---''))
             else None) files)"

text \<open>Second listing, lines 285--294.\<close>

definition prepareFilePart :: "host \<Rightarrow> UploadedFile \<Rightarrow> part option" where
  "prepareFilePart h file =
     (let d = cleanBase64 (data file)
      in if str_includes (type file) ''pdf''
         then Some (InlineData ''application/pdf'' d)
         else if str_includes (type file) ''text'' \<or> endsWith (name file) ''.txt'' \<or>
                 endsWith (name file) ''.md'' \<or> endsWith (name file) ''.tex'' \<or>
                 endsWith (name file) ''.latex''
         then Some (TextPart (''[Source Document: '' @ name file @ '']'' @ nl @ decodeBase64Text h d @ nl @ ''---''))
         else None)"

section \<open>Novelty analysis\<close>

subsection \<open>First listing (lines 77--149)\<close>

definition analysisPrompt1 :: "string" where
\<open>analysisPrompt1 =
     join nl
     ['''',
      ''    You are an AI-powered Chief Publication Officer (CPO). Your goal is to analyze the provided resources and synthesize a complete, Q1 Journal-Ready Manuscript Blueprint.'',
      ''    '',
      ''    **GUIDELINES:**'',
      ''    1. **Preliminary Analysis:** Identify SOTA Weaknesses/Gaps. If resources are sparse, automatically select a Cross-Domain Topic (e.g., Causal ML x LLM).'',
      ''    2. **Target:** Select a specific Q1 Venue (e.g., IEEE T-PAMI, Nature Electronics, JMLR).'',
      ''    3. **Writing Order 2A Logic:** Ensure the blueprint flows: Problem -> Solution -> Validation -> Implication.'',
      ''    '',
      ''    **TASK: Generate a JSON object containing:**'',
      ''    1. **title**: Informative and catchy Q1 title.'',
      ''    2. **target_journal**: Specific Q1 journal name.'',
      ''    3. **gap**: The critical Research Gap (SOTA limitations).'',
      ''    4. **novelty**: The Contribution (Bullet points of specific contributions).'',
      ''    5. **methodology_plan**: Brief on Architecture & Mathematical Rigor (Mention Loss Functions like $L_{total}$).'',
      ''    6. **expected_results**: Clear Claim (e.g., Superior robustness).'',
      ''    7. **checklist**: A "Reviewer Focus Check" object with:'',
      ''       - **novelty_check**: Is the cross-domain combination unique?'',
      ''       - **significance_check**: Is the Impact Factor high enough?'',
      ''       - **clarity_check**: Is the Problem Statement clear/concise?'',
      ''       - **journal_fit_check**: Why does this strictly fit the chosen journal's scope?'',
      ''  '']\<close>

definition analysisSchema1 :: schema where
  "analysisSchema1 =
     OBJECT
       [(''title'', STRING), (''target_journal'', STRING), (''gap'', STRING), (''novelty'', STRING),
        (''methodology_plan'', STRING), (''expected_results'', STRING),
        (''checklist'',
         OBJECT
           [(''novelty_check'', STRING), (''significance_check'', STRING),
            (''clarity_check'', STRING), (''journal_fit_check'', STRING)]
           [''novelty_check'', ''significance_check'', ''clarity_check'', ''journal_fit_check''])]
       [''title'', ''target_journal'', ''gap'', ''novelty'', ''methodology_plan'', ''expected_results'',
        ''checklist'']"

definition analysisRequest1 :: "part list \<Rightarrow> request" where
  "analysisRequest1 fileParts =
     \<lparr>model = ''gemini-3-pro-preview'',
      contents = Parts (fileParts @ [TextPart analysisPrompt1]),
      config = Some \<lparr>responseMimeType = ''application/json'', responseSchema = analysisSchema1\<rparr>\<rparr>"

definition analyzeFilesForNovelty1 :: "host \<Rightarrow> provider \<Rightarrow> UploadedFile list \<Rightarrow> json task" where
  "analyzeFilesForNovelty1 h ai files =
     (let fileParts = prepareFileParts h files
      in if length fileParts = 0
         then task_throw (Error (Some ''No valid PDF or Text files found to analyze.''))
         else try_catch
                (task_bind (callWithRetry1 (generateContent ai (analysisRequest1 fileParts)) 3 2000)
                   (\<lambda>response.
                      case response_text response of
                        None \<Rightarrow> task_throw (Error (Some ''Empty response from AI''))
                      | Some t \<Rightarrow>
                          if t = [] then task_throw (Error (Some ''Empty response from AI''))
                          else (\<lambda>tr. (JSON_parse h t, tr))))
                (\<lambda>error. task_throw (Error (Some (or_else (message error) ''Failed to analyze documents.'')))))"

subsection \<open>Second listing (lines 308--430)\<close>

definition summarizePrompt :: "string" where
  \<open>summarizePrompt =
     join nl
     ['''',
      ''    Analyze this research document. Extract:'',
      ''    1. Core Research Question'',
      ''    2. Key Methodology/Techniques'',
      ''    3. Main Findings/Claims'',
      ''    4. Any important citations (Author, Year)'',
      ''    '',
      ''    Output strictly as a concise summary text.'',
      ''  '']\<close>

definition summarizeRequest :: "part \<Rightarrow> request" where
  "summarizeRequest p =
     \<lparr>model = ''gemini-2.5-flash'', contents = Parts [p, TextPart summarizePrompt], config = None\<rparr>"

definition summarizeFile :: "host \<Rightarrow> provider \<Rightarrow> UploadedFile \<Rightarrow> string task" where
  "summarizeFile h ai file =
     (case prepareFilePart h file of
        None \<Rightarrow> task_return []
      | Some p \<Rightarrow>
          try_catch
            (task_bind (generateContent ai (summarizeRequest p))
               (\<lambda>response.
                  task_return
                    (''[Summary of '' @ name file @ '']:'' @ nl @ interpolate (response_text response) @
                     nl @ ''---'' @ nl)))
            (\<lambda>e. task_return []))"

text \<open>The \<open>for (const file of files)\<close> loop of lines 347--352, with its accumulator.\<close>

fun summarize_loop :: "host \<Rightarrow> provider \<Rightarrow> UploadedFile list \<Rightarrow> string list \<Rightarrow> string list task" where
  "summarize_loop h ai [] summaries tr = (Inr summaries, tr)"
| "summarize_loop h ai (file # files) summaries tr =
     (case summarizeFile h ai file tr of
        (Inl e, tr') \<Rightarrow> (Inl e, tr')
      | (Inr summary, tr') \<Rightarrow> summarize_loop h ai files (summaries @ [summary]) (tr' @ [Sleep 500]))"

definition analysisPrompt2 :: "string" where
  \<open>analysisPrompt2 =
     join nl
     ['''',
      ''    You are an AI-powered Chief Publication Officer (CPO). Analyze the resources for a Q1 Journal Manuscript.'',
      ''    '',
      ''    **GUIDELINES:**'',
      ''    1. Identify SOTA Weaknesses/Gaps based on the provided materials.'',
      ''    2. Select a specific Q1 Venue.'',
      ''    3. Ensure Logic Flow: Problem -> Solution -> Validation -> Implication.'',
      ''    4. **Extract Sources:** Look for key papers cited in the text/summaries and list them.'',
      ''    '',
      ''    **Return JSON:**'',
      ''    {'',
      ''      "title": "High-impact title",'',
      ''      "target_journal": "Journal Name",'',
      ''      "gap": "Research Gap",'',
      ''      "novelty": "Bullet points of contribution",'',
      ''      "methodology_plan": "Math/Architecture brief",'',
      ''      "expected_results": "Hypothesis/Claims",'',
      ''      "checklist": { "novelty_check": "...", "significance_check": "...", "clarity_check": "...", "journal_fit_check": "..." },'',
      ''      "references": ["Author, Year, Title", ...]'',
      ''    }'',
      ''  '']\<close>

definition analysisSchema2 :: schema where
  "analysisSchema2 =
     OBJECT
       [(''title'', STRING), (''target_journal'', STRING), (''gap'', STRING), (''novelty'', STRING),
        (''methodology_plan'', STRING), (''expected_results'', STRING),
        (''checklist'',
         OBJECT
           [(''novelty_check'', STRING), (''significance_check'', STRING),
            (''clarity_check'', STRING), (''journal_fit_check'', STRING)]
           []),
        (''references'', ARRAY STRING)]
       []"

definition analysisRequest2 :: "string \<Rightarrow> part list \<Rightarrow> request" where
  "analysisRequest2 m processingParts =
     \<lparr>model = m,
      contents = Parts (processingParts @ [TextPart analysisPrompt2]),
      config = Some \<lparr>responseMimeType = ''application/json'', responseSchema = analysisSchema2\<rparr>\<rparr>"

text \<open>Lines 341--358: the choice between the summaries and the documents themselves.\<close>

definition processingParts_of :: "host \<Rightarrow> provider \<Rightarrow> UploadedFile list \<Rightarrow> part list task" where
  "processingParts_of h ai files =
     (if length files > 2
      then task_bind (summarize_loop h ai files [])
             (\<lambda>summaries.
                task_return
                  [TextPart (''Here are summaries of the provided source materials:'' @ nl @
                             join nl summaries)])
      else task_return (filter_non_null (map (prepareFilePart h) files)))"

text \<open>
  Lines 409--429: one tier is the retried request followed by \<open>JSON.parse\<close>, inside the
  \<open>try\<close>; the preferred tier runs first, then the fallback tier.
\<close>

definition analyze_tier :: "host \<Rightarrow> provider \<Rightarrow> string \<Rightarrow> part list \<Rightarrow> json task" where
  "analyze_tier h ai m processingParts =
     task_bind (callWithRetry2 (generateContent ai (analysisRequest2 m processingParts)) 3 2000)
       (\<lambda>response tr. (JSON_parse h (or_else (response_text response) ''{}''), tr))"

definition analysis_tiers :: "host \<Rightarrow> provider \<Rightarrow> part list \<Rightarrow> json task" where
  "analysis_tiers h ai processingParts =
     try_catch (analyze_tier h ai ''gemini-3-pro-preview'' processingParts)
       (\<lambda>error.
          try_catch (analyze_tier h ai ''gemini-2.5-flash'' processingParts)
            (\<lambda>finalError.
               task_throw
                 (Error (Some (''Analysis failed after retries: '' @ interpolate (message finalError))))))"

definition analyzeFilesForNovelty2 :: "host \<Rightarrow> provider \<Rightarrow> UploadedFile list \<Rightarrow> json task" where
  "analyzeFilesForNovelty2 h ai files =
     task_bind (processingParts_of h ai files) (\<lambda>processingParts. analysis_tiers h ai processingParts)"

section \<open>Section drafting, text transforms and the advisory dialogue\<close>

datatype PaperSectionType =
  Title | Abstract | Introduction | LiteratureReview | Methodology | Results | Discussion |
  Conclusion | References

text \<open>The string value of each member of the enum.\<close>

fun PaperSectionType_value :: "PaperSectionType \<Rightarrow> string" where
  "PaperSectionType_value Title = ''Title''"
| "PaperSectionType_value Abstract = ''Abstract''"
| "PaperSectionType_value Introduction = ''Introduction''"
| "PaperSectionType_value LiteratureReview = ''Literature Review''"
| "PaperSectionType_value Methodology = ''Methodology''"
| "PaperSectionType_value Results = ''Results''"
| "PaperSectionType_value Discussion = ''Discussion''"
| "PaperSectionType_value Conclusion = ''Conclusion''"
| "PaperSectionType_value References = ''References''"

text \<open>
  The \<open>context\<close> argument of \<open>generateSectionContent\<close>; each element of
  \<open>otherSections\<close> is a pair of \<open>type\<close> and \<open>content\<close>.
\<close>

record SectionContext =
  ctx_files :: "UploadedFile list"
  ctx_title :: string
  ctx_gap :: string
  ctx_novelty :: string
  ctx_targetJournal :: string
  ctx_methodologyPlan :: string
  ctx_otherSections :: "(string \<times> string) list"

text \<open>The first listing's \<open>context\<close> also carries \<open>expectedResults\<close>.\<close>

record SectionContext1 = SectionContext +
  ctx_expectedResults :: string

subsection \<open>First listing (lines 151--209)\<close>

definition sectionPrompt1 :: "string \<Rightarrow> string \<Rightarrow> string \<Rightarrow> string \<Rightarrow> string \<Rightarrow> string \<Rightarrow> string" where
  \<open>sectionPrompt1 targetJournal title novelty methodologyPlan sectionType previousContext =
     join nl
     ['''',
      ''    Act as the Chief Publication Officer writing a manuscript for **'' @ targetJournal @ ''** (Q1).'',
      ''    '',
      ''    **Paper Metadata:**'',
      ''    - **Title:** '' @ title,
      ''    - **Contribution:** '' @ novelty,
      ''    - **Methodology:** '' @ methodologyPlan,
      ''    '',
      ''    **Task:** Write the **'' @ sectionType @ ''** section.'',
      ''    '',
      ''    **Strict CPO Guidelines (Writing Order 2A & Principles 3):**'',
      ''    1.  **Turnitin-Safe:** Content must be 100% original, synthesized from sources, not copied.'',
      ''    2.  **Logic Flow:**'',
      ''        - If Intro: Problem Statement -> Research Gap -> Contribution bullets.'',
      ''        - If Related Work: Critical Analysis (Last 5 years) -> Differentiate your work.'',
      ''        - If Methodology: Transparent Method -> Mathematical Rigor ($LaTeX$ for Loss Functions: e.g., $'' @ [CHR 0x5C] @ ''mathcal{L}_{total}$).'',
      ''        - If Results: Comparative Analysis vs 3 Baselines -> Clear Claim (No overclaiming).'',
      ''    3.  **Tone:** Scientific Rigor, Formal, Ethical.'',
      ''    4.  **Formatting:** Markdown.'',
      ''    '',
      ''    **Context:**'',
      ''    '' @ previousContext,
      ''  '']\<close>
definition generateSectionContent1 ::
  "host \<Rightarrow> provider \<Rightarrow> PaperSectionType \<Rightarrow> SectionContext1 \<Rightarrow> string task" where
  "generateSectionContent1 h ai sectionType context =
     (let fileParts = prepareFileParts h (ctx_files context);
          previousContext =
            join nl (map (\<lambda>(t, c). ''['' @ t @ '' Summary]: '' @ take 500 c @ ''...'')
                       (ctx_otherSections context));
          prompt =
            sectionPrompt1 (ctx_targetJournal context) (ctx_title context) (ctx_novelty context)
              (ctx_methodologyPlan context) (PaperSectionType_value sectionType) previousContext
      in try_catch
           (task_bind
              (callWithRetry1
                 (generateContent ai
                    \<lparr>model = ''gemini-2.5-flash'', contents = Parts (fileParts @ [TextPart prompt]),
                     config = None\<rparr>) 3 2000)
              (\<lambda>response. task_return (or_else (response_text response) ''Failed to generate content.'')))
           (\<lambda>error.
              task_return
                (''Error generating content: '' @ interpolate (message error) @
                 ''. Please try again later.'')))"

subsection \<open>Second listing (lines 432--546)\<close>

definition filesToPartsLimited :: "host \<Rightarrow> UploadedFile list \<Rightarrow> part list" where
  "filesToPartsLimited h files = filter_non_null (map (prepareFilePart h) (take 3 files))"

definition sectionPrompt2 :: "string \<Rightarrow> string \<Rightarrow> string \<Rightarrow> string \<Rightarrow> string \<Rightarrow> string \<Rightarrow> string" where
  \<open>sectionPrompt2 targetJournal title novelty methodologyPlan sectionType previousContext =
     join nl
     ['''',
      ''    Act as CPO writing for '' @ targetJournal @ '' (Q1).'',
      ''    Title: '' @ title,
      ''    Contribution: '' @ novelty,
      ''    Methodology: '' @ methodologyPlan,
      ''    '',
      ''    Task: Write '' @ sectionType @ '' section.'',
      ''    Rules: 100% Original (Turnitin-Safe), Mathematical Rigor (LaTeX), Formal Tone.'',
      ''    Context: '' @ previousContext,
      ''  '']\<close>
definition generateSectionContent2 ::
  "host \<Rightarrow> provider \<Rightarrow> PaperSectionType \<Rightarrow> SectionContext \<Rightarrow> string task" where
  "generateSectionContent2 h ai sectionType context =
     (let fileParts = filesToPartsLimited h (ctx_files context);
          previousContext =
            join nl (map (\<lambda>(t, c). ''['' @ t @ '']: '' @ take 500 c @ ''...'')
                       (ctx_otherSections context));
          prompt =
            sectionPrompt2 (ctx_targetJournal context) (ctx_title context) (ctx_novelty context)
              (ctx_methodologyPlan context) (PaperSectionType_value sectionType) previousContext
      in try_catch
           (task_bind
              (callWithRetry2
                 (generateContent ai
                    \<lparr>model = ''gemini-2.5-flash'', contents = Parts (fileParts @ [TextPart prompt]),
                     config = None\<rparr>) 3 2000)
              (\<lambda>response. task_return (or_else (response_text response) ''Failed.'')))
           (\<lambda>error. task_return (''Error: '' @ interpolate (message error))))"

datatype MagicToolType = Expand | Condense | FixGrammar | MakeRigorous

fun instruction_of :: "MagicToolType \<Rightarrow> string" where
  "instruction_of Expand =
     ''Expand this text with more detailed explanations, examples, and academic nuance. Increase word count by ~30%.''"
| "instruction_of Condense =
     ''Condense this text to be more concise and punchy without losing key technical meaning. Reduce word count by ~30%.''"
| "instruction_of FixGrammar =
     ''Fix all grammar, punctuation, and stylistic errors. Ensure perfect native-level academic English.''"
| "instruction_of MakeRigorous =
     ''Inject more mathematical formalism. Convert descriptive logic into LaTeX equations where possible. Use more precise terminology.''"

definition magicPrompt :: "string \<Rightarrow> string \<Rightarrow> string" where
  \<open>magicPrompt instruction text =
     join nl
     ['''',
      ''    Task: Apply the following transformation to the text: "'' @ instruction @ ''"'',
      ''    '',
      ''    Text:'',
      ''    '' @ text,
      ''  '']\<close>
definition magicRequest :: "string \<Rightarrow> MagicToolType \<Rightarrow> request" where
  "magicRequest text tool =
     \<lparr>model = ''gemini-2.5-flash'', contents = Prompt (magicPrompt (instruction_of tool) text),
      config = None\<rparr>"

definition applyMagicTool :: "provider \<Rightarrow> string \<Rightarrow> MagicToolType \<Rightarrow> string task" where
  "applyMagicTool ai text tool =
     try_catch
       (task_bind (callWithRetry2 (generateContent ai (magicRequest text tool)) 3 2000)
          (\<lambda>response. task_return (or_else (response_text response) text)))
       (\<lambda>error. task_return text)"

record ChatMessage =
  role :: string
  message_text :: string
  timestamp :: int

definition systemContext :: "string \<Rightarrow> string \<Rightarrow> string \<Rightarrow> string" where
  \<open>systemContext title gap novelty =
     join nl
     ['''',
      ''    You are the Chief Publication Officer (CPO) assisting an author.'',
      ''    Current Paper Context:'',
      ''    Title: '' @ title,
      ''    Gap: '' @ gap,
      ''    Novelty: '' @ novelty,
      ''    '',
      ''    Answer the user's question about their paper. Be critical, helpful, and strategic (Q1 focus).'',
      ''  '']\<close>
definition chatRequest :: "string \<Rightarrow> string \<Rightarrow> ChatMessage list \<Rightarrow> string \<times> string \<times> string \<Rightarrow> request" where
  "chatRequest m query history context =
     (case context of
        (title, gap, novelty) \<Rightarrow>
          (let conversation =
                 join nl (map (\<lambda>h. role h @ '': '' @ message_text h) (drop (length history - 10) history))
           in \<lparr>model = m,
               contents =
                 Prompt (systemContext title gap novelty @ nl @ nl @ ''Previous Chat:'' @ nl @
                         conversation @ nl @ nl @ ''User: '' @ query),
               config = None\<rparr>))"

definition consultCPO ::
  "provider \<Rightarrow> string \<Rightarrow> ChatMessage list \<Rightarrow> string \<times> string \<times> string \<Rightarrow> string task" where
  "consultCPO ai query history context =
     try_catch
       (task_bind
          (callWithRetry2 (generateContent ai (chatRequest ''gemini-3-pro-preview'' query history context))
             3 2000)
          (\<lambda>response. task_return (or_else (response_text response) ''I cannot answer that right now.'')))
       (\<lambda>error.
          try_catch
            (task_bind
               (callWithRetry2 (generateContent ai (chatRequest ''gemini-2.5-flash'' query history context))
                  3 2000)
               (\<lambda>response.
                  task_return (or_else (response_text response) ''I cannot answer that right now.'')))
            (\<lambda>e. task_return ''The CPO is currently unavailable (Quota Exceeded).''))"

section \<open>Session state and the section-drafting handler\<close>

record QualityChecklist =
  novelty_check :: string
  significance_check :: string
  clarity_check :: string
  journal_fit_check :: string

record PaperSection =
  section_id :: string
  section_type :: PaperSectionType
  title :: string
  content :: string
  isGenerating :: bool
  section_notes :: string

text \<open>
  \<open>ResearchState\<close> as the types listing declares it; the state of \<open>App.tsx\<close>
  extends it with the extracted references and the chat.
\<close>

record ResearchState_base =
  files :: "UploadedFile list"
  paperTitle :: string
  researchGap :: string
  noveltyClaim :: string
  targetJournal :: string
  methodologyPlan :: string
  expectedResults :: string
  qualityChecklist :: "QualityChecklist option"
  sections :: "PaperSection list"
  activeSectionId :: "string option"

record ResearchState = ResearchState_base +
  extractedReferences :: "string list"
  chatHistory :: "ChatMessage list"
  isChatOpen :: bool

text \<open>
  The updater functions handed to \<open>setState\<close>. React applies an updater to the state
  that is current when the update is committed, so each is a function of \<open>prev\<close>; the
  spread \<open>...prev\<close> keeps every field that is not named.
\<close>

definition markGenerating ::
  "string \<Rightarrow> 'a ResearchState_base_scheme \<Rightarrow> 'a ResearchState_base_scheme" where
  "markGenerating sectionId prev =
     prev\<lparr>sections :=
       map (\<lambda>s. if section_id s = sectionId then s\<lparr>isGenerating := True\<rparr> else s) (sections prev)\<rparr>"

definition commitContent ::
  "string \<Rightarrow> string \<Rightarrow> 'a ResearchState_base_scheme \<Rightarrow> 'a ResearchState_base_scheme" where
  "commitContent sectionId c prev =
     prev\<lparr>sections :=
       map (\<lambda>s. if section_id s = sectionId then s\<lparr>isGenerating := False, content := c\<rparr> else s)
         (sections prev)\<rparr>"

definition handleUpdateSection ::
  "string \<Rightarrow> string \<Rightarrow> 'a ResearchState_base_scheme \<Rightarrow> 'a ResearchState_base_scheme" where
  "handleUpdateSection sectionId newContent prev =
     prev\<lparr>sections :=
       map (\<lambda>s. if section_id s = sectionId then s\<lparr>content := newContent\<rparr> else s) (sections prev)\<rparr>"

definition appendChat :: "ChatMessage \<Rightarrow> ResearchState \<Rightarrow> ResearchState" where
  "appendChat msg prev = prev\<lparr>chatHistory := chatHistory prev @ [msg]\<rparr>"

text \<open>
  What one run of \<open>handleGenerateSection\<close> does, besides its provider calls: an alert
  and nothing else; the first update only (no section has the id); both updates; or the
  first update and a rejected promise.
\<close>

datatype 's outcome =
  Alerted string
| NoSection "'s \<Rightarrow> 's"
| Drafted "'s \<Rightarrow> 's" "'s \<Rightarrow> 's"
| Unhandled "'s \<Rightarrow> 's" error

text \<open>\<open>App.tsx\<close>, lines 209--220. \<open>state\<close> is the snapshot the handler closed over.\<close>

definition handleGenerateSection ::
  "host \<Rightarrow> provider \<Rightarrow> ResearchState \<Rightarrow> string \<Rightarrow> trace \<Rightarrow> ResearchState outcome \<times> trace" where
  "handleGenerateSection h ai state sectionId tr =
     (if noveltyClaim state = [] then (Alerted ''Run Analysis first.'', tr)
      else
        (case find (\<lambda>s. section_id s = sectionId) (sections state) of
           None \<Rightarrow> (NoSection (markGenerating sectionId), tr)
         | Some sec \<Rightarrow>
             (case generateSectionContent2 h ai (section_type sec)
                     \<lparr>ctx_files = files state, ctx_title = paperTitle state, ctx_gap = researchGap state,
                      ctx_novelty = noveltyClaim state, ctx_targetJournal = targetJournal state,
                      ctx_methodologyPlan = methodologyPlan state,
                      ctx_otherSections =
                        map (\<lambda>s. (PaperSectionType_value (section_type s), content s))
                          (filter (\<lambda>s. section_id s \<noteq> sectionId \<and> length (content s) > 0)
                             (sections state))\<rparr> tr of
                (Inr c, tr') \<Rightarrow> (Drafted (markGenerating sectionId) (commitContent sectionId c), tr')
              | (Inl e, tr') \<Rightarrow> (Unhandled (markGenerating sectionId) e, tr'))))"

text \<open>The earlier listing of the handler, lines 176--208 of the earlier application component.\<close>

definition handleGenerateSection1 ::
  "host \<Rightarrow> provider \<Rightarrow> ResearchState_base \<Rightarrow> string \<Rightarrow> trace \<Rightarrow> ResearchState_base outcome \<times> trace" where
  "handleGenerateSection1 h ai state sectionId tr =
     (if noveltyClaim state = [] then (Alerted ''Run 'Deep Analysis' first.'', tr)
      else if \<not> list_all (\<lambda>f. data f \<noteq> []) (files state)
      then (Alerted ''File data is missing. Re-upload files.'', tr)
      else
        (case find (\<lambda>s. section_id s = sectionId) (sections state) of
           None \<Rightarrow> (NoSection (markGenerating sectionId), tr)
         | Some sec \<Rightarrow>
             (case generateSectionContent1 h ai (section_type sec)
                     \<lparr>ctx_files = files state, ctx_title = paperTitle state, ctx_gap = researchGap state,
                      ctx_novelty = noveltyClaim state, ctx_targetJournal = targetJournal state,
                      ctx_methodologyPlan = methodologyPlan state,
                      ctx_otherSections =
                        map (\<lambda>s. (PaperSectionType_value (section_type s), content s))
                          (filter (\<lambda>s. section_id s \<noteq> sectionId \<and> length (content s) > 0)
                             (sections state)),
                      ctx_expectedResults = expectedResults state\<rparr> tr of
                (Inr c, tr') \<Rightarrow> (Drafted (markGenerating sectionId) (commitContent sectionId c), tr')
              | (Inl e, tr') \<Rightarrow> (Unhandled (markGenerating sectionId) e, tr'))))"

section \<open>Deterministic providers for the examples\<close>

text \<open>
  A provider that rejects every request with the same message, one that answers every
  request with the same text, one whose preferred tier is down, a small request, a host
  whose \<open>atob\<close> and decoder are the identity and whose \<open>JSON.parse\<close> knows the empty
  object only, and four uploaded files.
\<close>

definition always_fails :: "string \<Rightarrow> provider" where
  "always_fails msg tr req = Inl (Error (Some msg))"

definition always_answers :: "string option \<Rightarrow> provider" where
  "always_answers t tr req = Inr \<lparr>response_text = t\<rparr>"

definition ping :: request where
  "ping = \<lparr>model = ''gemini-2.5-flash'', contents = Prompt ''ping'', config = None\<rparr>"

definition stub_host :: host where
  "stub_host =
     \<lparr>atob = (\<lambda>s. Some s),
      TextDecoder_decode = (\<lambda>s. s),
      JSON_parse = (\<lambda>s. if s = ''{}'' then Inr (JObject []) else Inl (Error (Some ''Unexpected token'')))\<rparr>"

definition paper_pdf :: UploadedFile where
  "paper_pdf = \<lparr>name = ''paper.pdf'', type = ''application/pdf'', data = ''data:application/pdf;base64,JVBERi0=''\<rparr>"

definition paper_tex :: UploadedFile where
  "paper_tex = \<lparr>name = ''paper.tex'', type = ''application/x-tex'', data = ''data:application/x-tex;base64,XGRvYw==''\<rparr>"

definition notes_txt :: UploadedFile where
  "notes_txt = \<lparr>name = ''notes.txt'', type = ''text/plain'', data = ''data:text/plain;base64,aGk=''\<rparr>"

definition main_TEX :: UploadedFile where
  "main_TEX = \<lparr>name = ''Main.TEX'', type = ''application/x-tex'', data = ''data:application/x-tex;base64,XGRvYw==''\<rparr>"

definition figure_png :: UploadedFile where
  "figure_png = \<lparr>name = ''figure.png'', type = ''image/png'', data = ''data:image/png;base64,iVBORw==''\<rparr>"

definition preferred_tier_down :: "string \<Rightarrow> string option \<Rightarrow> provider" where
  "preferred_tier_down msg t tr req =
     (if model req = ''gemini-3-pro-preview'' then Inl (Error (Some msg)) else Inr \<lparr>response_text = t\<rparr>)"

section \<open>Vocabulary for parts and traces\<close>

text \<open>An event is a summarization call when it sends \<open>summarizeRequest p\<close> for some part.\<close>

definition is_summarize_call :: "event \<Rightarrow> bool" where
  "is_summarize_call ev =
     (case ev of
        Sleep ms \<Rightarrow> False
      | Call r \<Rightarrow> (case contents r of Parts [p, q] \<Rightarrow> r = summarizeRequest p | _ \<Rightarrow> False))"

text \<open>The formats for which \<open>prepareFilePart\<close> returns a part.\<close>

definition supported_format :: "UploadedFile \<Rightarrow> bool" where
  "supported_format f =
     (str_includes (type f) ''pdf'' \<or> str_includes (type f) ''text'' \<or> endsWith (name f) ''.txt'' \<or>
      endsWith (name f) ''.md'' \<or> endsWith (name f) ''.tex'' \<or> endsWith (name f) ''.latex'')"

text \<open>
  The trace expected of the map-reduce loop: the documents in order, each with its
  summarization call if it has a part, each followed by a pause of 500 milliseconds.
\<close>

definition summarization_trace :: "host \<Rightarrow> UploadedFile list \<Rightarrow> event list" where
  "summarization_trace h fs =
     concat (map (\<lambda>f. (case prepareFilePart h f of None \<Rightarrow> [] | Some p \<Rightarrow> [Call (summarizeRequest p)]) @
                       [Sleep 500]) fs)"

text \<open>The single part that line 354 builds from the summaries.\<close>

definition summaries_part :: "string list \<Rightarrow> part" where
  "summaries_part summaries =
     TextPart (''Here are summaries of the provided source materials:'' @ nl @ join nl summaries)"

text \<open>The text of a text part: the line naming the document, its decoded content, the separator.\<close>

definition source_text :: "host \<Rightarrow> UploadedFile \<Rightarrow> string" where
  "source_text h f =
     ''[Source Document: '' @ name f @ '']'' @ nl @ decodeBase64Text h (cleanBase64 (data f)) @ nl @ ''---''"

section \<open>The initial session state and example sessions\<close>

text \<open>The state \<open>useState\<close> starts from (\<open>App.tsx\<close>, lines 7--17 and 32--53).\<close>

definition INITIAL_SECTIONS :: "PaperSectionType list" where
  "INITIAL_SECTIONS =
     [Title, Abstract, Introduction, LiteratureReview, Methodology, Results, Discussion, Conclusion,
      References]"

definition initialSections :: "PaperSection list" where
  "initialSections =
     map (\<lambda>t. \<lparr>section_id = PaperSectionType_value t, section_type = t,
               title = PaperSectionType_value t, content = [], isGenerating = False,
               section_notes = []\<rparr>) INITIAL_SECTIONS"

definition initialState :: ResearchState where
  "initialState =
     \<lparr>files = [], paperTitle = [], researchGap = [], noveltyClaim = [], targetJournal = [],
      methodologyPlan = [], expectedResults = [], qualityChecklist = None,
      sections = initialSections, activeSectionId = Some (PaperSectionType_value Introduction),
      extractedReferences = [], chatHistory = [], isChatOpen = False\<rparr>"

text \<open>The same for the earlier listing, whose state has no chat.\<close>

definition initialState1 :: ResearchState_base where
  "initialState1 =
     \<lparr>files = [], paperTitle = [], researchGap = [], noveltyClaim = [], targetJournal = [],
      methodologyPlan = [], expectedResults = [], qualityChecklist = None,
      sections = initialSections, activeSectionId = Some (PaperSectionType_value Introduction)\<rparr>"

text \<open>The updaters an outcome hands to \<open>setState\<close>, in order, and their effect on a state.\<close>

fun updates_of :: "'s outcome \<Rightarrow> ('s \<Rightarrow> 's) list" where
  "updates_of (Alerted msg) = []"
| "updates_of (NoSection u) = [u]"
| "updates_of (Drafted u v) = [u, v]"
| "updates_of (Unhandled u e) = [u]"

definition apply_outcome :: "'s outcome \<Rightarrow> 's \<Rightarrow> 's" where
  "apply_outcome out s = foldl (\<lambda>s u. u s) s (updates_of out)"

text \<open>A session after an analysis, and a chat message.\<close>

definition analysed :: ResearchState where
  "analysed = initialState\<lparr>paperTitle := ''T'', researchGap := ''G'', noveltyClaim := ''N'',
                           targetJournal := ''JMLR''\<rparr>"

definition analysed1 :: ResearchState_base where
  "analysed1 = initialState1\<lparr>paperTitle := ''T'', researchGap := ''G'', noveltyClaim := ''N'',
                             targetJournal := ''JMLR''\<rparr>"

definition hello :: ChatMessage where
  "hello = \<lparr>role = ''user'', message_text = ''Which venue?'', timestamp = 0\<rparr>"

section \<open>Properties of the retry governor\<close>

declare callWithRetry1.simps [simp del] callWithRetry2.simps [simp del]

lemma startsWith_prefix: "startsWith s t \<longleftrightarrow> prefix t s"
  by (induction s t rule: startsWith.induct) auto

lemma str_includes_sublist: "str_includes s t \<longleftrightarrow> sublist t s"
  by (induction s) (auto simp: startsWith_prefix sublist_Cons_right)

lemma endsWith_suffix: "endsWith s t \<longleftrightarrow> suffix t s"
  by (simp add: endsWith_def startsWith_prefix suffix_to_prefix)

lemmas lower_simps = toLowerCase_def toLowerCase_char_def

lemma isRetryable1_markers:
  assumes "sublist k (toLowerCase m)"
    and "k = ''429'' \<or> k = ''503'' \<or> k = ''quota'' \<or> k = ''resource exhausted'' \<or> k = ''rate limit''"
  shows "isRetryable1 (Error (Some m))"
  using assms by (auto simp: isRetryable1_def str_includes_sublist)

lemma isRetryable2_markers:
  assumes "sublist k (toLowerCase m)"
    and "k = ''429'' \<or> k = ''503'' \<or> k = ''quota'' \<or> k = ''resource exhausted''"
  shows "isRetryable2 (Error (Some m))"
  using assms by (auto simp: isRetryable2_def str_includes_sublist)

lemma callWithRetry1_success:
  "fn tr = (Inr v, tr') \<Longrightarrow> callWithRetry1 fn retries delayMs tr = (Inr v, tr')"
  by (subst callWithRetry1.simps) simp

lemma callWithRetry1_fatal:
  "fn tr = (Inl e, tr') \<Longrightarrow> \<not> isRetryable1 e \<Longrightarrow> callWithRetry1 fn retries delayMs tr = (Inl e, tr')"
  by (subst callWithRetry1.simps) simp

lemma callWithRetry1_exhausted:
  "fn tr = (Inl e, tr') \<Longrightarrow> retries \<le> 0 \<Longrightarrow> callWithRetry1 fn retries delayMs tr = (Inl e, tr')"
  by (subst callWithRetry1.simps) simp

lemma callWithRetry1_retry:
  "fn tr = (Inl e, tr') \<Longrightarrow> isRetryable1 e \<Longrightarrow> retries > 0 \<Longrightarrow>
   callWithRetry1 fn retries delayMs tr = callWithRetry1 fn (retries - 1) (delayMs * 2) (tr' @ [Sleep delayMs])"
  by (subst callWithRetry1.simps) simp

lemma callWithRetry1_defaults:
  assumes "\<forall>t. ai t req = Inl e" and "isRetryable1 e"
  shows "callWithRetry1 (generateContent ai req) 3 2000 tr =
         (Inl e, tr @ [Call req, Sleep 2000, Call req, Sleep 4000, Call req, Sleep 8000, Call req])"
proof -
  have g: "\<And>t. generateContent ai req t = (Inl e, t @ [Call req])"
    using assms(1) by (simp add: generateContent_def)
  show ?thesis
    using assms(2)
    by (simp add: callWithRetry1_retry [OF g] callWithRetry1_exhausted [OF g])
qed

lemma callWithRetry2_success:
  "fn tr = (Inr v, tr') \<Longrightarrow> callWithRetry2 fn retries delayMs tr = (Inr v, tr')"
  by (subst callWithRetry2.simps) simp

lemma callWithRetry2_fatal:
  "fn tr = (Inl e, tr') \<Longrightarrow> \<not> isRetryable2 e \<Longrightarrow> callWithRetry2 fn retries delayMs tr = (Inl e, tr')"
  by (subst callWithRetry2.simps) simp

lemma callWithRetry2_exhausted:
  "fn tr = (Inl e, tr') \<Longrightarrow> retries \<le> 0 \<Longrightarrow> callWithRetry2 fn retries delayMs tr = (Inl e, tr')"
  by (subst callWithRetry2.simps) simp

lemma callWithRetry2_retry:
  "fn tr = (Inl e, tr') \<Longrightarrow> isRetryable2 e \<Longrightarrow> retries > 0 \<Longrightarrow>
   callWithRetry2 fn retries delayMs tr = callWithRetry2 fn (retries - 1) (delayMs * 2) (tr' @ [Sleep delayMs])"
  by (subst callWithRetry2.simps) simp

lemma callWithRetry2_defaults:
  assumes "\<forall>t. ai t req = Inl e" and "isRetryable2 e"
  shows "callWithRetry2 (generateContent ai req) 3 2000 tr =
         (Inl e, tr @ [Call req, Sleep 2000, Call req, Sleep 4000, Call req, Sleep 8000, Call req])"
proof -
  have g: "\<And>t. generateContent ai req t = (Inl e, t @ [Call req])"
    using assms(1) by (simp add: generateContent_def)
  show ?thesis
    using assms(2)
    by (simp add: callWithRetry2_retry [OF g] callWithRetry2_exhausted [OF g])
qed

text \<open>
  Claim C3. Both listings of the retry governor: a failure that is not transient is
  propagated unchanged after the first attempt, and the trace is the one the operation left
  (no pause is added); a transient failure with retries left pauses for \<open>delayMs\<close> and
  recurses with one retry less and twice the delay; with no retries left the error is
  propagated unchanged. With the defaults an operation that keeps failing transiently is
  attempted four times, after pauses of 2000, 4000 and 8000 milliseconds.
\<close>

theorem callWithRetry_backoff:
  "(fn tr = (Inl e, tr') \<and> \<not> isRetryable1 e \<longrightarrow>
      callWithRetry1 fn retries delayMs tr = (Inl e, tr')) \<and>
   (fn tr = (Inl e, tr') \<and> isRetryable1 e \<and> 0 < retries \<longrightarrow>
      callWithRetry1 fn retries delayMs tr =
      callWithRetry1 fn (retries - 1) (delayMs * 2) (tr' @ [Sleep delayMs])) \<and>
   (fn tr = (Inl e, tr') \<and> retries \<le> 0 \<longrightarrow>
      callWithRetry1 fn retries delayMs tr = (Inl e, tr')) \<and>
   ((\<forall>t. ai t req = Inl e) \<and> isRetryable1 e \<longrightarrow>
      callWithRetry1 (generateContent ai req) 3 2000 tr =
      (Inl e, tr @ [Call req, Sleep 2000, Call req, Sleep 4000, Call req, Sleep 8000, Call req])) \<and>
   (fn tr = (Inl e, tr') \<and> \<not> isRetryable2 e \<longrightarrow>
      callWithRetry2 fn retries delayMs tr = (Inl e, tr')) \<and>
   (fn tr = (Inl e, tr') \<and> isRetryable2 e \<and> 0 < retries \<longrightarrow>
      callWithRetry2 fn retries delayMs tr =
      callWithRetry2 fn (retries - 1) (delayMs * 2) (tr' @ [Sleep delayMs])) \<and>
   (fn tr = (Inl e, tr') \<and> retries \<le> 0 \<longrightarrow>
      callWithRetry2 fn retries delayMs tr = (Inl e, tr')) \<and>
   ((\<forall>t. ai t req = Inl e) \<and> isRetryable2 e \<longrightarrow>
      callWithRetry2 (generateContent ai req) 3 2000 tr =
      (Inl e, tr @ [Call req, Sleep 2000, Call req, Sleep 4000, Call req, Sleep 8000, Call req]))"
  using callWithRetry1_fatal [of fn tr e tr' retries delayMs]
    callWithRetry1_retry [of fn tr e tr' retries delayMs]
    callWithRetry1_exhausted [of fn tr e tr' retries delayMs]
    callWithRetry1_defaults [of ai req e tr]
    callWithRetry2_fatal [of fn tr e tr' retries delayMs]
    callWithRetry2_retry [of fn tr e tr' retries delayMs]
    callWithRetry2_exhausted [of fn tr e tr' retries delayMs]
    callWithRetry2_defaults [of ai req e tr]
  by blast

lemma retryable_429: "isRetryable1 (Error (Some ''429 Too Many Requests''))" "isRetryable2 (Error (Some ''429 Too Many Requests''))"
  by (simp_all add: isRetryable1_def isRetryable2_def lower_simps)
lemma fatal_400: "\<not> isRetryable1 (Error (Some ''400 Bad Request''))" "\<not> isRetryable2 (Error (Some ''400 Bad Request''))"
  by (simp_all add: isRetryable1_def isRetryable2_def lower_simps)

theorem callWithRetry_backoff_witness:
  "callWithRetry1 (generateContent (always_fails ''400 Bad Request'') ping) 3 2000 [] =
     (Inl (Error (Some ''400 Bad Request'')), [Call ping]) \<and>
   callWithRetry1 (generateContent (always_fails ''429 Too Many Requests'') ping) 3 2000 [] =
     callWithRetry1 (generateContent (always_fails ''429 Too Many Requests'') ping) (3 - 1) (2000 * 2)
       ([Call ping] @ [Sleep 2000]) \<and>
   callWithRetry1 (generateContent (always_fails ''429 Too Many Requests'') ping) 0 2000 [] =
     (Inl (Error (Some ''429 Too Many Requests'')), [Call ping]) \<and>
   callWithRetry1 (generateContent (always_fails ''429 Too Many Requests'') ping) 3 2000 [] =
     (Inl (Error (Some ''429 Too Many Requests'')),
      [Call ping, Sleep 2000, Call ping, Sleep 4000, Call ping, Sleep 8000, Call ping]) \<and>
   callWithRetry2 (generateContent (always_fails ''400 Bad Request'') ping) 3 2000 [] =
     (Inl (Error (Some ''400 Bad Request'')), [Call ping]) \<and>
   callWithRetry2 (generateContent (always_fails ''429 Too Many Requests'') ping) 3 2000 [] =
     callWithRetry2 (generateContent (always_fails ''429 Too Many Requests'') ping) (3 - 1) (2000 * 2)
       ([Call ping] @ [Sleep 2000]) \<and>
   callWithRetry2 (generateContent (always_fails ''429 Too Many Requests'') ping) 0 2000 [] =
     (Inl (Error (Some ''429 Too Many Requests'')), [Call ping]) \<and>
   callWithRetry2 (generateContent (always_fails ''429 Too Many Requests'') ping) 3 2000 [] =
     (Inl (Error (Some ''429 Too Many Requests'')),
      [Call ping, Sleep 2000, Call ping, Sleep 4000, Call ping, Sleep 8000, Call ping])"
proof -
  let ?bad = "generateContent (always_fails ''400 Bad Request'') ping"
  let ?busy = "generateContent (always_fails ''429 Too Many Requests'') ping"
  have bad: "?bad [] = (Inl (Error (Some ''400 Bad Request'')), [Call ping])"
    by (simp add: generateContent_def always_fails_def)
  have busy: "?busy [] = (Inl (Error (Some ''429 Too Many Requests'')), [Call ping])"
    by (simp add: generateContent_def always_fails_def)
  have all: "\<forall>t. always_fails ''429 Too Many Requests'' t ping = Inl (Error (Some ''429 Too Many Requests''))"
    by (simp add: always_fails_def)
  note a = callWithRetry_backoff [where fn = ?bad and tr = "[]" and e = "Error (Some ''400 Bad Request'')"
     and tr' = "[Call ping]" and retries = 3 and delayMs = 2000]
  note b = callWithRetry_backoff [where fn = ?busy and tr = "[]"
     and e = "Error (Some ''429 Too Many Requests'')" and tr' = "[Call ping]" and retries = 3
     and delayMs = 2000]
  note c = callWithRetry_backoff [where fn = ?busy and tr = "[]"
     and e = "Error (Some ''429 Too Many Requests'')" and tr' = "[Call ping]" and retries = 0
     and delayMs = 2000 and ai = "always_fails ''429 Too Many Requests''" and req = ping]
  have pos: "(0::int) < 3" and nonpos: "(0::int) \<le> 0"
    by simp_all
  have w1: "callWithRetry1 ?bad 3 2000 [] = (Inl (Error (Some ''400 Bad Request'')), [Call ping])"
    using a bad fatal_400 by blast
  have w2: "callWithRetry1 ?busy 3 2000 [] = callWithRetry1 ?busy (3 - 1) (2000 * 2) ([Call ping] @ [Sleep 2000])"
    using b busy retryable_429 pos by blast
  have w3: "callWithRetry1 ?busy 0 2000 [] = (Inl (Error (Some ''429 Too Many Requests'')), [Call ping])"
    using c busy nonpos by blast
  have w4: "callWithRetry1 ?busy 3 2000 [] =
     (Inl (Error (Some ''429 Too Many Requests'')),
      [] @ [Call ping, Sleep 2000, Call ping, Sleep 4000, Call ping, Sleep 8000, Call ping])"
    using c all retryable_429 by blast
  have w5: "callWithRetry2 ?bad 3 2000 [] = (Inl (Error (Some ''400 Bad Request'')), [Call ping])"
    using a bad fatal_400 by blast
  have w6: "callWithRetry2 ?busy 3 2000 [] = callWithRetry2 ?busy (3 - 1) (2000 * 2) ([Call ping] @ [Sleep 2000])"
    using b busy retryable_429 pos by blast
  have w7: "callWithRetry2 ?busy 0 2000 [] = (Inl (Error (Some ''429 Too Many Requests'')), [Call ping])"
    using c busy nonpos by blast
  have w8: "callWithRetry2 ?busy 3 2000 [] =
     (Inl (Error (Some ''429 Too Many Requests'')),
      [] @ [Call ping, Sleep 2000, Call ping, Sleep 4000, Call ping, Sleep 8000, Call ping])"
    using c all retryable_429 by blast
  from w4 w8 have w4': "callWithRetry1 ?busy 3 2000 [] =
     (Inl (Error (Some ''429 Too Many Requests'')),
      [Call ping, Sleep 2000, Call ping, Sleep 4000, Call ping, Sleep 8000, Call ping])"
    and w8': "callWithRetry2 ?busy 3 2000 [] =
     (Inl (Error (Some ''429 Too Many Requests'')),
      [Call ping, Sleep 2000, Call ping, Sleep 4000, Call ping, Sleep 8000, Call ping])"
    by simp_all
  show ?thesis
    using w1 w2 w3 w4' w5 w6 w7 w8' by (intro conjI)
qed

text \<open>
  Claim C2. The second listing does not look for \<open>rate limit\<close>: an operation failing
  with the message \<open>Rate limit exceeded\<close> is attempted once and its error propagated
  with three retries left, where the first listing retries it three times.
\<close>

theorem rate_limit_not_retried:
  "callWithRetry2 (generateContent (always_fails ''Rate limit exceeded'') ping) 3 2000 [] =
     (Inl (Error (Some ''Rate limit exceeded'')), [Call ping]) \<and>
   callWithRetry1 (generateContent (always_fails ''Rate limit exceeded'') ping) 3 2000 [] =
     (Inl (Error (Some ''Rate limit exceeded'')),
      [Call ping, Sleep 2000, Call ping, Sleep 4000, Call ping, Sleep 8000, Call ping])"
proof -
  have g: "\<And>t. generateContent (always_fails ''Rate limit exceeded'') ping t =
      (Inl (Error (Some ''Rate limit exceeded'')), t @ [Call ping])"
    by (simp add: generateContent_def always_fails_def)
  have n2: "\<not> isRetryable2 (Error (Some ''Rate limit exceeded''))"
    by (simp add: isRetryable2_def lower_simps)
  have y1: "isRetryable1 (Error (Some ''Rate limit exceeded''))"
    by (simp add: isRetryable1_def lower_simps)
  have "callWithRetry2 (generateContent (always_fails ''Rate limit exceeded'') ping) 3 2000 [] =
     (Inl (Error (Some ''Rate limit exceeded'')), [Call ping])"
    using callWithRetry2_fatal [OF g n2, where tr = "[]"] by simp
  moreover have "callWithRetry1 (generateContent (always_fails ''Rate limit exceeded'') ping) 3 2000 [] =
     (Inl (Error (Some ''Rate limit exceeded'')),
      [Call ping, Sleep 2000, Call ping, Sleep 4000, Call ping, Sleep 8000, Call ping])"
    using callWithRetry1_defaults [where ai = "always_fails ''Rate limit exceeded''" and req = ping and tr = "[]"] y1
    by (simp add: always_fails_def)
  ultimately show ?thesis by simp
qed

section \<open>Properties of the attachment preparer\<close>

lemma cleanBase64_data_url: "cleanBase64 (data paper_pdf) = ''JVBERi0=''"
  by (simp add: paper_pdf_def cleanBase64_def dot_plus_then_def isLineTerminator_def)

lemma cleanBase64_greedy: "cleanBase64 ''data:a;base64,b;base64,c'' = ''c''"
  by (simp add: cleanBase64_def dot_plus_then_def isLineTerminator_def)
lemma cleanBase64_needs_media_type: "cleanBase64 ''data:;base64,c'' = ''data:;base64,c''"
  by (simp add: cleanBase64_def dot_plus_then_def isLineTerminator_def)
lemma cleanBase64_plain: "cleanBase64 ''JVBERi0='' = ''JVBERi0=''"
  by (simp add: cleanBase64_def dot_plus_then_def isLineTerminator_def)

lemma prepareFilePart_pdf:
  "str_includes (type file) ''pdf'' \<Longrightarrow>
   prepareFilePart h file = Some (InlineData ''application/pdf'' (cleanBase64 (data file)))"
  by (simp add: prepareFilePart_def)

lemma prepareFilePart_cases:
  "prepareFilePart h file =
     (if str_includes (type file) ''pdf''
      then Some (InlineData ''application/pdf'' (cleanBase64 (data file)))
      else if str_includes (type file) ''text'' \<or> suffix ''.txt'' (name file) \<or>
              suffix ''.md'' (name file) \<or> suffix ''.tex'' (name file) \<or> suffix ''.latex'' (name file)
      then Some (TextPart (''[Source Document: '' @ name file @ '']'' @ nl @
                   decodeBase64Text h (cleanBase64 (data file)) @ nl @ ''---''))
      else None)"
  by (simp add: prepareFilePart_def Let_def endsWith_suffix)

lemma length_filter_non_null: "length (filter_non_null ps) \<le> length ps"
  by (induction ps) (auto split: option.splits)

lemma filter_non_null_map_filter: "filter_non_null ps = List.map_filter id ps"
  by (induction ps) (auto split: option.splits)

lemma prepareFileParts_length: "length (prepareFileParts h fs) \<le> length fs"
  unfolding prepareFileParts_def using length_filter_non_null [of "map _ fs"] by simp

lemma prepareFileParts_Cons:
  "prepareFileParts h (f # fs) = prepareFileParts h [f] @ prepareFileParts h fs"
  by (simp add: prepareFileParts_def Let_def split: option.splits)

lemma prepareFileParts_single:
  "prepareFileParts h [f] =
     (if sublist ''pdf'' (type f) then [InlineData ''application/pdf'' (cleanBase64 (data f))]
      else if sublist ''text'' (type f) \<or> suffix ''.txt'' (name f) \<or> suffix ''.md'' (name f)
      then [TextPart (source_text h f)]
      else [])"
  by (simp add: prepareFileParts_def Let_def source_text_def str_includes_sublist endsWith_suffix)

lemma prepareFilePart_sublist:
  "prepareFilePart h f =
     (if sublist ''pdf'' (type f) then Some (InlineData ''application/pdf'' (cleanBase64 (data f)))
      else if sublist ''text'' (type f) \<or> suffix ''.txt'' (name f) \<or> suffix ''.md'' (name f) \<or>
              suffix ''.tex'' (name f) \<or> suffix ''.latex'' (name f)
      then Some (TextPart (source_text h f))
      else None)"
  by (simp add: prepareFilePart_def Let_def source_text_def str_includes_sublist endsWith_suffix)

text \<open>
  Claim C6, amended. A document whose declared type contains \<open>pdf\<close> becomes a binary part
  with the media type \<open>application/pdf\<close>. Otherwise a document whose declared type
  contains \<open>text\<close>, or whose name ends in \<open>.txt\<close> or \<open>.md\<close>, becomes a text
  part: the decoded content between the line naming the document and the separator line. The
  suffixes \<open>.tex\<close> and \<open>.latex\<close> are recognised by \<open>prepareFilePart\<close> of the second
  listing only; \<open>prepareFileParts\<close> of the first listing filters such a document out.
  Every other document yields no part, and the list of parts is never longer than the list
  of documents.
\<close>

theorem attachment_preparer_cases:
  "(sublist ''pdf'' (type f) \<longrightarrow>
      prepareFilePart h f = Some (InlineData ''application/pdf'' (cleanBase64 (data f))) \<and>
      prepareFileParts h [f] = [InlineData ''application/pdf'' (cleanBase64 (data f))]) \<and>
   (\<not> sublist ''pdf'' (type f) \<and>
    (sublist ''text'' (type f) \<or> suffix ''.txt'' (name f) \<or> suffix ''.md'' (name f)) \<longrightarrow>
      prepareFilePart h f = Some (TextPart (source_text h f)) \<and>
      prepareFileParts h [f] = [TextPart (source_text h f)]) \<and>
   (\<not> sublist ''pdf'' (type f) \<and> \<not> sublist ''text'' (type f) \<and> \<not> suffix ''.txt'' (name f) \<and>
    \<not> suffix ''.md'' (name f) \<and> (suffix ''.tex'' (name f) \<or> suffix ''.latex'' (name f)) \<longrightarrow>
      prepareFilePart h f = Some (TextPart (source_text h f)) \<and>
      prepareFileParts h [f] = []) \<and>
   (\<not> sublist ''pdf'' (type f) \<and> \<not> sublist ''text'' (type f) \<and> \<not> suffix ''.txt'' (name f) \<and>
    \<not> suffix ''.md'' (name f) \<and> \<not> suffix ''.tex'' (name f) \<and> \<not> suffix ''.latex'' (name f) \<longrightarrow>
      prepareFilePart h f = None \<and> prepareFileParts h [f] = []) \<and>
   prepareFileParts h (f # fs) = prepareFileParts h [f] @ prepareFileParts h fs \<and>
   length (prepareFileParts h fs) \<le> length fs \<and>
   length (filter_non_null (map (prepareFilePart h) fs)) \<le> length fs"
  using prepareFileParts_Cons [of h f fs] prepareFileParts_length [of h fs]
    length_filter_non_null [of "map (prepareFilePart h) fs"]
  by (simp add: prepareFilePart_sublist prepareFileParts_single)

lemma example_formats:
  "sublist ''pdf'' (type paper_pdf)"
  "\<not> sublist ''pdf'' (type notes_txt)" "sublist ''text'' (type notes_txt)"
  "\<not> sublist ''pdf'' (type paper_tex)" "\<not> sublist ''text'' (type paper_tex)"
  "\<not> suffix ''.txt'' (name paper_tex)" "\<not> suffix ''.md'' (name paper_tex)"
  "suffix ''.tex'' (name paper_tex)"
  "\<not> sublist ''pdf'' (type figure_png)" "\<not> sublist ''text'' (type figure_png)"
  "\<not> suffix ''.txt'' (name figure_png)" "\<not> suffix ''.md'' (name figure_png)"
  "\<not> suffix ''.tex'' (name figure_png)" "\<not> suffix ''.latex'' (name figure_png)"
  by (simp_all add: str_includes_sublist [symmetric] endsWith_suffix [symmetric] endsWith_def
        paper_pdf_def notes_txt_def paper_tex_def figure_png_def)

theorem attachment_preparer_cases_witness:
  "prepareFilePart stub_host paper_pdf = Some (InlineData ''application/pdf'' ''JVBERi0='') \<and>
   prepareFileParts stub_host [paper_pdf] = [InlineData ''application/pdf'' ''JVBERi0=''] \<and>
   prepareFilePart stub_host notes_txt = Some (TextPart (source_text stub_host notes_txt)) \<and>
   prepareFileParts stub_host [notes_txt] = [TextPart (source_text stub_host notes_txt)] \<and>
   prepareFilePart stub_host paper_tex = Some (TextPart (source_text stub_host paper_tex)) \<and>
   prepareFileParts stub_host [paper_tex] = [] \<and>
   prepareFilePart stub_host figure_png = None \<and>
   prepareFileParts stub_host [figure_png] = []"
proof -
  note pdf = attachment_preparer_cases [where f = paper_pdf and h = stub_host]
  note plain = attachment_preparer_cases [where f = notes_txt and h = stub_host]
  note tex = attachment_preparer_cases [where f = paper_tex and h = stub_host]
  note png = attachment_preparer_cases [where f = figure_png and h = stub_host]
  have a: "prepareFilePart stub_host paper_pdf = Some (InlineData ''application/pdf'' (cleanBase64 (data paper_pdf))) \<and>
      prepareFileParts stub_host [paper_pdf] = [InlineData ''application/pdf'' (cleanBase64 (data paper_pdf))]"
    using pdf example_formats by blast
  have b: "prepareFilePart stub_host notes_txt = Some (TextPart (source_text stub_host notes_txt)) \<and>
      prepareFileParts stub_host [notes_txt] = [TextPart (source_text stub_host notes_txt)]"
    using plain example_formats by blast
  have c: "prepareFilePart stub_host paper_tex = Some (TextPart (source_text stub_host paper_tex)) \<and>
      prepareFileParts stub_host [paper_tex] = []"
    using tex example_formats by blast
  have d: "prepareFilePart stub_host figure_png = None \<and> prepareFileParts stub_host [figure_png] = []"
    using png example_formats by blast
  from a b c d show ?thesis
    by (simp add: cleanBase64_data_url)
qed

text \<open>
  Claim C6 as stated fails for the first listing: a document named \<open>paper.tex\<close> with the
  declared type \<open>application/x-tex\<close> is a LaTeX source by its suffix, and
  \<open>prepareFileParts\<close> returns no part for it.
\<close>

theorem prepareFileParts_drops_latex:
  "suffix ''.tex'' (name paper_tex) \<and>
   prepareFileParts stub_host [paper_tex] = [] \<and>
   prepareFilePart stub_host paper_tex =
     Some (TextPart (''[Source Document: paper.tex]'' @ nl @ ''XGRvYw=='' @ nl @ ''---''))"
  by (simp add: prepareFileParts_def prepareFilePart_def paper_tex_def stub_host_def endsWith_def
        cleanBase64_def dot_plus_then_def isLineTerminator_def decodeBase64Text_def
        endsWith_suffix [symmetric])

section \<open>Properties of the text transforms and the advisory dialogue\<close>

lemmas task_defs = task_return_def task_throw_def task_bind_def try_catch_def

lemma or_else_nonempty: "d \<noteq> [] \<Longrightarrow> or_else x d \<noteq> []"
  by (simp add: or_else_def split: option.splits)

lemma or_else_falsy: "x = None \<or> x = Some [] \<Longrightarrow> or_else x d = d"
  by (auto simp: or_else_def)

text \<open>
  Claim C9. \<open>applyMagicTool\<close> always resolves, for each of the four tools. When the
  retried provider call fails, or answers with an undefined or empty text, the result is the
  input text unchanged; otherwise it is the provider's text.
\<close>

theorem applyMagicTool_keeps_text:
  "(\<exists>out tr'. applyMagicTool ai orig tool tr = (Inr out, tr')) \<and>
   (callWithRetry2 (generateContent ai (magicRequest orig tool)) 3 2000 tr = (Inl e, tra) \<longrightarrow>
      applyMagicTool ai orig tool tr = (Inr orig, tra)) \<and>
   (callWithRetry2 (generateContent ai (magicRequest orig tool)) 3 2000 tr = (Inr r, tra) \<and>
    (response_text r = None \<or> response_text r = Some []) \<longrightarrow>
      applyMagicTool ai orig tool tr = (Inr orig, tra)) \<and>
   (callWithRetry2 (generateContent ai (magicRequest orig tool)) 3 2000 tr = (Inr r, tra) \<and>
    response_text r = Some t \<and> t \<noteq> [] \<longrightarrow>
      applyMagicTool ai orig tool tr = (Inr t, tra))"
proof -
  obtain res trb where run: "callWithRetry2 (generateContent ai (magicRequest orig tool)) 3 2000 tr = (res, trb)"
    by (cases "callWithRetry2 (generateContent ai (magicRequest orig tool)) 3 2000 tr")
  show ?thesis
  proof (cases res)
    case (Inl err)
    with run show ?thesis
      by (simp add: applyMagicTool_def task_defs)
  next
    case (Inr resp)
    with run show ?thesis
      by (auto simp: applyMagicTool_def task_defs or_else_def)
  qed
qed

lemma retryable_503: "isRetryable2 (Error (Some ''503 Service Unavailable''))"
  by (simp add: isRetryable2_def lower_simps)

theorem applyMagicTool_keeps_text_witness:
  "fst (applyMagicTool (always_fails ''503 Service Unavailable'') ''Teh text.'' FixGrammar []) = Inr ''Teh text.'' \<and>
   fst (applyMagicTool (always_answers (Some [])) ''Teh text.'' Expand []) = Inr ''Teh text.'' \<and>
   fst (applyMagicTool (always_answers (Some ''The text.'')) ''Teh text.'' FixGrammar []) = Inr ''The text.''"
proof -
  let ?q = "magicRequest ''Teh text.'' FixGrammar"
  let ?q' = "magicRequest ''Teh text.'' Expand"
  have down: "callWithRetry2 (generateContent (always_fails ''503 Service Unavailable'') ?q) 3 2000 [] =
      (Inl (Error (Some ''503 Service Unavailable'')),
       [] @ [Call ?q, Sleep 2000, Call ?q, Sleep 4000, Call ?q, Sleep 8000, Call ?q])"
    by (rule callWithRetry2_defaults) (simp_all add: always_fails_def retryable_503)
  have empty: "callWithRetry2 (generateContent (always_answers (Some [])) ?q') 3 2000 [] =
      (Inr \<lparr>response_text = Some []\<rparr>, [Call ?q'])"
    by (rule callWithRetry2_success) (simp add: generateContent_def always_answers_def)
  have good: "callWithRetry2 (generateContent (always_answers (Some ''The text.'')) ?q) 3 2000 [] =
      (Inr \<lparr>response_text = Some ''The text.''\<rparr>, [Call ?q])"
    by (rule callWithRetry2_success) (simp add: generateContent_def always_answers_def)
  have a: "applyMagicTool (always_fails ''503 Service Unavailable'') ''Teh text.'' FixGrammar [] =
      (Inr ''Teh text.'', [] @ [Call ?q, Sleep 2000, Call ?q, Sleep 4000, Call ?q, Sleep 8000, Call ?q])"
    using applyMagicTool_keeps_text [where ai = "always_fails ''503 Service Unavailable''"
        and orig = "''Teh text.''" and tool = FixGrammar and tr = "[]"] down
    by blast
  have b: "applyMagicTool (always_answers (Some [])) ''Teh text.'' Expand [] = (Inr ''Teh text.'', [Call ?q'])"
    using applyMagicTool_keeps_text [where ai = "always_answers (Some [])"
        and orig = "''Teh text.''" and tool = Expand and tr = "[]"
        and r = "\<lparr>response_text = Some []\<rparr>" and tra = "[Call ?q']"] empty
    by simp
  have c: "applyMagicTool (always_answers (Some ''The text.'')) ''Teh text.'' FixGrammar [] =
      (Inr ''The text.'', [Call ?q])"
    using applyMagicTool_keeps_text [where ai = "always_answers (Some ''The text.'')"
        and orig = "''Teh text.''" and tool = FixGrammar and tr = "[]"
        and r = "\<lparr>response_text = Some ''The text.''\<rparr>" and tra = "[Call ?q]"
        and t = "''The text.''"] good
    by simp
  show ?thesis
    using a b c by simp
qed

text \<open>
  Claim C10. \<open>consultCPO\<close> always resolves with a reply that is not empty. It runs the
  retried call on the preferred tier first; if that fails it runs the retried call on the fast
  tier, starting where the first left off; if that fails too the reply is the fixed
  unavailability message.
\<close>

theorem consultCPO_always_replies:
  "(\<exists>reply tr'. consultCPO ai query history ctx tr = (Inr reply, tr') \<and> reply \<noteq> []) \<and>
   (callWithRetry2 (generateContent ai (chatRequest ''gemini-3-pro-preview'' query history ctx)) 3 2000 tr =
      (Inr r, tra) \<longrightarrow>
    consultCPO ai query history ctx tr =
      (Inr (or_else (response_text r) ''I cannot answer that right now.''), tra)) \<and>
   (callWithRetry2 (generateContent ai (chatRequest ''gemini-3-pro-preview'' query history ctx)) 3 2000 tr =
      (Inl e, tra) \<and>
    callWithRetry2 (generateContent ai (chatRequest ''gemini-2.5-flash'' query history ctx)) 3 2000 tra =
      (Inr r, trb) \<longrightarrow>
    consultCPO ai query history ctx tr =
      (Inr (or_else (response_text r) ''I cannot answer that right now.''), trb)) \<and>
   (callWithRetry2 (generateContent ai (chatRequest ''gemini-3-pro-preview'' query history ctx)) 3 2000 tr =
      (Inl e, tra) \<and>
    callWithRetry2 (generateContent ai (chatRequest ''gemini-2.5-flash'' query history ctx)) 3 2000 tra =
      (Inl e', trb) \<longrightarrow>
    consultCPO ai query history ctx tr =
      (Inr ''The CPO is currently unavailable (Quota Exceeded).'', trb))"
proof -
  let ?pro = "callWithRetry2 (generateContent ai (chatRequest ''gemini-3-pro-preview'' query history ctx)) 3 2000"
  let ?flash = "callWithRetry2 (generateContent ai (chatRequest ''gemini-2.5-flash'' query history ctx)) 3 2000"
  have ne: "or_else x ''I cannot answer that right now.'' \<noteq> []" for x
    by (rule or_else_nonempty) simp
  obtain res ta where pro: "?pro tr = (res, ta)"
    by (cases "?pro tr")
  obtain res' tb where flash: "?flash ta = (res', tb)"
    by (cases "?flash ta")
  show ?thesis
  proof (cases res)
    case (Inr resp)
    with pro show ?thesis
      by (simp add: consultCPO_def task_defs ne)
  next
    case (Inl err)
    show ?thesis
    proof (cases res')
      case (Inr resp)
      with Inl pro flash show ?thesis
        by (simp add: consultCPO_def task_defs ne)
    next
      case (Inl err')
      with \<open>res = Inl err\<close> pro flash show ?thesis
        by (simp add: consultCPO_def task_defs)
    qed
  qed
qed

lemma model_chatRequest: "model (chatRequest m query history context) = m"
  by (simp add: chatRequest_def Let_def split: prod.splits)

theorem consultCPO_always_replies_witness:
  "fst (consultCPO (always_answers (Some ''Target JMLR.'')) ''Which venue?'' [] (''T'', ''G'', ''N'') []) =
     Inr ''Target JMLR.'' \<and>
   fst (consultCPO (preferred_tier_down ''503 Service Unavailable'' None) ''Which venue?'' []
          (''T'', ''G'', ''N'') []) =
     Inr ''I cannot answer that right now.'' \<and>
   fst (consultCPO (always_fails ''Quota exceeded'') ''Which venue?'' [] (''T'', ''G'', ''N'') []) =
     Inr ''The CPO is currently unavailable (Quota Exceeded).''"
proof -
  let ?pro = "chatRequest ''gemini-3-pro-preview'' ''Which venue?'' [] (''T'', ''G'', ''N'')"
  let ?flash = "chatRequest ''gemini-2.5-flash'' ''Which venue?'' [] (''T'', ''G'', ''N'')"
  let ?e = "Error (Some ''503 Service Unavailable'')"
  let ?q = "Error (Some ''Quota exceeded'')"
  let ?four = "\<lambda>r. [Call r, Sleep 2000, Call r, Sleep 4000, Call r, Sleep 8000, Call r]"
  have r503: "isRetryable2 ?e" and rq: "isRetryable2 ?q"
    by (simp_all add: isRetryable2_def lower_simps)
  have p1: "callWithRetry2 (generateContent (always_answers (Some ''Target JMLR.'')) ?pro) 3 2000 [] =
      (Inr \<lparr>response_text = Some ''Target JMLR.''\<rparr>, [Call ?pro])"
    by (rule callWithRetry2_success) (simp add: generateContent_def always_answers_def)
  have p2: "callWithRetry2 (generateContent (preferred_tier_down ''503 Service Unavailable'' None) ?pro) 3 2000 [] =
      (Inl ?e, [] @ ?four ?pro)"
    by (rule callWithRetry2_defaults) (simp_all add: preferred_tier_down_def model_chatRequest r503)
  have f2: "callWithRetry2 (generateContent (preferred_tier_down ''503 Service Unavailable'' None) ?flash) 3 2000
        ([] @ ?four ?pro) = (Inr \<lparr>response_text = None\<rparr>, ([] @ ?four ?pro) @ [Call ?flash])"
    by (rule callWithRetry2_success)
       (simp add: generateContent_def preferred_tier_down_def model_chatRequest)
  have p3: "callWithRetry2 (generateContent (always_fails ''Quota exceeded'') ?pro) 3 2000 [] =
      (Inl ?q, [] @ ?four ?pro)"
    by (rule callWithRetry2_defaults) (simp_all add: always_fails_def rq)
  have f3: "callWithRetry2 (generateContent (always_fails ''Quota exceeded'') ?flash) 3 2000 ([] @ ?four ?pro) =
      (Inl ?q, ([] @ ?four ?pro) @ ?four ?flash)"
    by (rule callWithRetry2_defaults) (simp_all add: always_fails_def rq)
  have a: "consultCPO (always_answers (Some ''Target JMLR.'')) ''Which venue?'' [] (''T'', ''G'', ''N'') [] =
      (Inr (or_else (response_text \<lparr>response_text = Some ''Target JMLR.''\<rparr>) ''I cannot answer that right now.''),
       [Call ?pro])"
    using consultCPO_always_replies [where ai = "always_answers (Some ''Target JMLR.'')"
        and query = "''Which venue?''" and history = "[]" and ctx = "(''T'', ''G'', ''N'')"
        and tr = "[]"] p1
    by blast
  have b: "consultCPO (preferred_tier_down ''503 Service Unavailable'' None) ''Which venue?'' []
        (''T'', ''G'', ''N'') [] =
      (Inr (or_else (response_text \<lparr>response_text = None\<rparr>) ''I cannot answer that right now.''),
       ([] @ ?four ?pro) @ [Call ?flash])"
    using consultCPO_always_replies [where ai = "preferred_tier_down ''503 Service Unavailable'' None"
        and query = "''Which venue?''" and history = "[]" and ctx = "(''T'', ''G'', ''N'')"
        and tr = "[]" and tra = "[] @ ?four ?pro"] p2 f2
    by blast
  have c: "consultCPO (always_fails ''Quota exceeded'') ''Which venue?'' [] (''T'', ''G'', ''N'') [] =
      (Inr ''The CPO is currently unavailable (Quota Exceeded).'', ([] @ ?four ?pro) @ ?four ?flash)"
    using consultCPO_always_replies [where ai = "always_fails ''Quota exceeded''"
        and query = "''Which venue?''" and history = "[]" and ctx = "(''T'', ''G'', ''N'')"
        and tr = "[]" and tra = "[] @ ?four ?pro"] p3 f3
    by blast
  show ?thesis
    unfolding a b c by (simp add: or_else_def)
qed

section \<open>Properties of the novelty analysis\<close>

lemma analyzeFilesForNovelty1_strict:
  assumes "analyzeFilesForNovelty1 h ai fs tr = (Inr v, tr')"
  shows "\<exists>r t. callWithRetry1 (generateContent ai (analysisRequest1 (prepareFileParts h fs))) 3 2000 tr = (Inr r, tr') \<and>
           response_text r = Some t \<and> t \<noteq> [] \<and> JSON_parse h t = Inr v"
proof -
  let ?run = "callWithRetry1 (generateContent ai (analysisRequest1 (prepareFileParts h fs))) 3 2000 tr"
  from assms have len: "length (prepareFileParts h fs) \<noteq> 0"
    by (auto simp: analyzeFilesForNovelty1_def Let_def task_defs)
  obtain res ta where run: "?run = (res, ta)"
    by (cases ?run)
  show ?thesis
  proof (cases res)
    case (Inl e)
    with assms len run show ?thesis
      by (simp add: analyzeFilesForNovelty1_def Let_def task_defs)
  next
    case (Inr r)
    with assms len run show ?thesis
      by (auto simp: analyzeFilesForNovelty1_def Let_def task_defs split: option.splits if_splits sum.splits)
  qed
qed

lemma analyze_tier_empty_default:
  assumes "callWithRetry2 (generateContent ai (analysisRequest2 m P)) 3 2000 tr = (Inr r, tr')"
    and "response_text r = None \<or> response_text r = Some []"
  shows "analyze_tier h ai m P tr = (JSON_parse h ''{}'', tr')"
  using assms by (auto simp: analyze_tier_def task_bind_def or_else_def)

lemma analyze_tier_parse_failure:
  assumes "callWithRetry2 (generateContent ai (analysisRequest2 m P)) 3 2000 tr = (Inr r, tr')"
    and "response_text r = Some t" and "t \<noteq> []" and "JSON_parse h t = Inl e"
  shows "analyze_tier h ai m P tr = (Inl e, tr')"
  using assms by (simp add: analyze_tier_def task_bind_def or_else_def)

lemma analysis_tiers_both_fail:
  assumes "analyze_tier h ai ''gemini-3-pro-preview'' P tr = (Inl e, ta)"
    and "analyze_tier h ai ''gemini-2.5-flash'' P ta = (Inl e', tb)"
  shows "analysis_tiers h ai P tr =
           (Inl (Error (Some (''Analysis failed after retries: '' @ interpolate (message e')))), tb)"
  using assms by (simp add: analysis_tiers_def try_catch_def task_throw_def)

lemma analyzeFilesForNovelty1_empty_response:
  assumes "callWithRetry1 (generateContent ai (analysisRequest1 (prepareFileParts h fs))) 3 2000 tr = (Inr r, tr')"
    and "response_text r = None \<or> response_text r = Some []"
    and "prepareFileParts h fs \<noteq> []"
  shows "analyzeFilesForNovelty1 h ai fs tr = (Inl (Error (Some ''Empty response from AI'')), tr')"
  using assms
  by (auto simp: analyzeFilesForNovelty1_def Let_def task_defs or_else_def)

text \<open>
  Claim C1. When the provider answers with an undefined or an empty text, the second listing
  of \<open>analyzeFilesForNovelty\<close> parses the default \<open>{}\<close> and resolves with the empty
  object after a single call; the first listing rejects with \<open>Empty response from AI\<close>.
\<close>

theorem analyzeFilesForNovelty2_defaults_empty_response:
  "analyzeFilesForNovelty2 stub_host (always_answers None) [paper_pdf] [] =
     (Inr (JObject []), [Call (analysisRequest2 ''gemini-3-pro-preview'' [InlineData ''application/pdf'' ''JVBERi0=''])]) \<and>
   analyzeFilesForNovelty2 stub_host (always_answers (Some [])) [paper_pdf] [] =
     (Inr (JObject []), [Call (analysisRequest2 ''gemini-3-pro-preview'' [InlineData ''application/pdf'' ''JVBERi0=''])]) \<and>
   analyzeFilesForNovelty1 stub_host (always_answers None) [paper_pdf] [] =
     (Inl (Error (Some ''Empty response from AI'')),
      [Call (analysisRequest1 [InlineData ''application/pdf'' ''JVBERi0=''])])"
proof -
  let ?p = "[InlineData ''application/pdf'' ''JVBERi0='']"
  have parts2: "filter_non_null (map (prepareFilePart stub_host) [paper_pdf]) = ?p"
    by (simp add: prepareFilePart_def paper_pdf_def cleanBase64_def dot_plus_then_def isLineTerminator_def)
  have parts1: "prepareFileParts stub_host [paper_pdf] = ?p"
    by (simp add: prepareFileParts_def paper_pdf_def cleanBase64_def dot_plus_then_def isLineTerminator_def)
  have run2: "callWithRetry2 (generateContent (always_answers t) (analysisRequest2 ''gemini-3-pro-preview'' ?p)) 3 2000 [] =
      (Inr \<lparr>response_text = t\<rparr>, [Call (analysisRequest2 ''gemini-3-pro-preview'' ?p)])" for t
    by (rule callWithRetry2_success) (simp add: generateContent_def always_answers_def)
  have run1: "callWithRetry1 (generateContent (always_answers None) (analysisRequest1 ?p)) 3 2000 [] =
      (Inr \<lparr>response_text = None\<rparr>, [Call (analysisRequest1 ?p)])"
    by (rule callWithRetry1_success) (simp add: generateContent_def always_answers_def)
  have parse: "JSON_parse stub_host ''{}'' = Inr (JObject [])"
    by (simp add: stub_host_def)
  have pp: "processingParts_of stub_host ai [paper_pdf] [] = (Inr ?p, [])" for ai
    unfolding processingParts_of_def parts2 by (simp add: task_defs)
  have tier: "analyze_tier stub_host (always_answers t) ''gemini-3-pro-preview'' ?p [] =
     (Inr (JObject []), [Call (analysisRequest2 ''gemini-3-pro-preview'' ?p)])"
    if "t = None \<or> t = Some []" for t
    using that unfolding analyze_tier_def task_bind_def run2
    by (auto simp: or_else_def parse)
  have a: "analyzeFilesForNovelty2 stub_host (always_answers t) [paper_pdf] [] =
     (Inr (JObject []), [Call (analysisRequest2 ''gemini-3-pro-preview'' ?p)])"
    if "t = None \<or> t = Some []" for t
    unfolding analyzeFilesForNovelty2_def analysis_tiers_def task_bind_def pp
    by (simp add: try_catch_def tier [OF that])
  have b: "analyzeFilesForNovelty1 stub_host (always_answers None) [paper_pdf] [] =
     (Inl (Error (Some ''Empty response from AI'')), [Call (analysisRequest1 ?p)])"
    unfolding analyzeFilesForNovelty1_def Let_def parts1 task_bind_def try_catch_def run1
    by (simp add: run1 task_throw_def or_else_def)
  show ?thesis
    using a [of None] a [of "Some []"] b by simp
qed

section \<open>Properties of the document condensation strategy\<close>

lemma prepareFilePart_supported: "prepareFilePart h f \<noteq> None \<longleftrightarrow> supported_format f"
  by (simp add: prepareFilePart_def supported_format_def Let_def)

lemma length_direct_parts:
  "length (filter_non_null (map (prepareFilePart h) fs)) = length (filter supported_format fs)"
proof (induction fs)
  case Nil
  show ?case by simp
next
  case (Cons f fs)
  then show ?case
    using prepareFilePart_supported [of h f] by (cases "prepareFilePart h f") auto
qed

lemma is_summarize_call_iff: "is_summarize_call ev \<longleftrightarrow> (\<exists>p. ev = Call (summarizeRequest p))"
  by (auto simp: is_summarize_call_def summarizeRequest_def split: event.splits contents.splits list.splits)

lemma analysis_not_summarize: "\<not> is_summarize_call (Call (analysisRequest2 m P))"
  by (simp add: is_summarize_call_iff analysisRequest2_def summarizeRequest_def)

lemma sleep_not_summarize: "\<not> is_summarize_call (Sleep ms)"
  by (simp add: is_summarize_call_def)

lemma callWithRetry2_trace:
  "callWithRetry2 (generateContent ai req) r d tr = (res, tr') \<Longrightarrow>
   \<exists>evs. tr' = tr @ Call req # evs \<and> set evs \<subseteq> insert (Call req) (range Sleep)"
proof (induction "generateContent ai req" r d tr arbitrary: res tr' rule: callWithRetry2.induct)
  case (1 retries delayMs tr)
  show ?case
  proof (cases "ai tr req")
    case (Inr v)
    then have "generateContent ai req tr = (Inr v, tr @ [Call req])"
      by (simp add: generateContent_def)
    from callWithRetry2_success [where fn = "generateContent ai req", OF this] "1.prems" show ?thesis
      by auto
  next
    case (Inl e)
    then have g: "generateContent ai req tr = (Inl e, tr @ [Call req])"
      by (simp add: generateContent_def)
    show ?thesis
    proof (cases "isRetryable2 e \<and> retries > 0")
      case False
      then have "callWithRetry2 (generateContent ai req) retries delayMs tr = (Inl e, tr @ [Call req])"
        using g by (subst callWithRetry2.simps) auto
      with "1.prems" show ?thesis
        by auto
    next
      case True
      then have step: "callWithRetry2 (generateContent ai req) retries delayMs tr =
          callWithRetry2 (generateContent ai req) (retries - 1) (delayMs * 2) ((tr @ [Call req]) @ [Sleep delayMs])"
        using callWithRetry2_retry [where fn = "generateContent ai req", OF g] by simp
      from step "1.prems" have rec:
        "callWithRetry2 (generateContent ai req) (retries - 1) (delayMs * 2)
           ((tr @ [Call req]) @ [Sleep delayMs]) = (res, tr')"
        by simp
      from "1.hyps" [OF g [symmetric] refl True rec]
      obtain evs where "tr' = ((tr @ [Call req]) @ [Sleep delayMs]) @ Call req # evs"
        and "set evs \<subseteq> insert (Call req) (range Sleep)"
        by blast
      then show ?thesis
        by (intro exI [of _ "Sleep delayMs # Call req # evs"]) auto
    qed
  qed
qed

lemma analyze_tier_trace:
  assumes "analyze_tier h ai m P tr = (res, tr')"
  shows "\<exists>evs. tr' = tr @ Call (analysisRequest2 m P) # evs \<and>
           set evs \<subseteq> insert (Call (analysisRequest2 m P)) (range Sleep)"
proof -
  obtain r ta where run: "callWithRetry2 (generateContent ai (analysisRequest2 m P)) 3 2000 tr = (r, ta)"
    by (cases "callWithRetry2 (generateContent ai (analysisRequest2 m P)) 3 2000 tr")
  with assms have "tr' = ta"
    by (cases r) (auto simp: analyze_tier_def task_defs)
  with callWithRetry2_trace [OF run] show ?thesis
    by simp
qed

lemma analysis_tiers_trace:
  assumes "analysis_tiers h ai P tr = (res, tr')"
  shows "\<exists>evs. tr' = tr @ Call (analysisRequest2 ''gemini-3-pro-preview'' P) # evs \<and>
           set evs \<subseteq> {Call (analysisRequest2 ''gemini-3-pro-preview'' P),
                        Call (analysisRequest2 ''gemini-2.5-flash'' P)} \<union> range Sleep"
proof -
  obtain r ta where pro: "analyze_tier h ai ''gemini-3-pro-preview'' P tr = (r, ta)"
    by (cases "analyze_tier h ai ''gemini-3-pro-preview'' P tr")
  from analyze_tier_trace [OF pro] obtain evs where
    ta: "ta = tr @ Call (analysisRequest2 ''gemini-3-pro-preview'' P) # evs" and
    evs: "set evs \<subseteq> insert (Call (analysisRequest2 ''gemini-3-pro-preview'' P)) (range Sleep)"
    by blast
  show ?thesis
  proof (cases r)
    case (Inr v)
    with assms pro have "tr' = ta"
      by (simp add: analysis_tiers_def try_catch_def)
    with ta evs show ?thesis
      by auto
  next
    case (Inl e)
    obtain r' tb where flash: "analyze_tier h ai ''gemini-2.5-flash'' P ta = (r', tb)"
      by (cases "analyze_tier h ai ''gemini-2.5-flash'' P ta")
    from analyze_tier_trace [OF flash] obtain evs' where
      tb: "tb = ta @ Call (analysisRequest2 ''gemini-2.5-flash'' P) # evs'" and
      evs': "set evs' \<subseteq> insert (Call (analysisRequest2 ''gemini-2.5-flash'' P)) (range Sleep)"
      by blast
    from assms pro flash Inl have "tr' = tb"
      by (cases r') (simp_all add: analysis_tiers_def try_catch_def task_throw_def)
    with ta tb have "tr' = tr @ Call (analysisRequest2 ''gemini-3-pro-preview'' P) #
        (evs @ Call (analysisRequest2 ''gemini-2.5-flash'' P) # evs')"
      by simp
    moreover from evs evs' have "set (evs @ Call (analysisRequest2 ''gemini-2.5-flash'' P) # evs') \<subseteq>
        {Call (analysisRequest2 ''gemini-3-pro-preview'' P),
         Call (analysisRequest2 ''gemini-2.5-flash'' P)} \<union> range Sleep"
      by auto
    ultimately show ?thesis
      by blast
  qed
qed

lemma summarizeFile_trace:
  "\<exists>s. summarizeFile h ai f tr =
     (Inr s, tr @ (case prepareFilePart h f of None \<Rightarrow> [] | Some p \<Rightarrow> [Call (summarizeRequest p)]))"
proof (cases "prepareFilePart h f")
  case None
  then show ?thesis
    by (simp add: summarizeFile_def task_return_def)
next
  case (Some p)
  then show ?thesis
    by (cases "ai tr (summarizeRequest p)")
       (simp_all add: summarizeFile_def task_defs generateContent_def)
qed

lemma summarize_loop_trace:
  "\<exists>ss. length ss = length fs \<and>
     summarize_loop h ai fs acc tr = (Inr (acc @ ss), tr @ summarization_trace h fs)"
proof (induction fs arbitrary: acc tr)
  case Nil
  show ?case
    by (simp add: summarization_trace_def)
next
  case (Cons f fs)
  let ?calls = "case prepareFilePart h f of None \<Rightarrow> [] | Some p \<Rightarrow> [Call (summarizeRequest p)]"
  from summarizeFile_trace [of h ai f tr] obtain s where
    s: "summarizeFile h ai f tr = (Inr s, tr @ ?calls)"
    by blast
  from Cons.IH [of "acc @ [s]" "(tr @ ?calls) @ [Sleep 500]"] obtain ss where
    ss: "length ss = length fs" and
    run: "summarize_loop h ai fs (acc @ [s]) ((tr @ ?calls) @ [Sleep 500]) =
            (Inr ((acc @ [s]) @ ss), ((tr @ ?calls) @ [Sleep 500]) @ summarization_trace h fs)"
    by blast
  have "summarize_loop h ai (f # fs) acc tr = (Inr (acc @ s # ss), tr @ summarization_trace h (f # fs))"
    using s run by (simp add: summarization_trace_def)
  with ss show ?case
    by (intro exI [of _ "s # ss"]) simp
qed

lemma processingParts_of_direct:
  "length fs \<le> 2 \<Longrightarrow>
   processingParts_of h ai fs tr = (Inr (filter_non_null (map (prepareFilePart h) fs)), tr)"
  by (simp add: processingParts_of_def task_return_def)

lemma processingParts_of_map_reduce:
  assumes "length fs > 2"
  shows "\<exists>ss. length ss = length fs \<and>
           processingParts_of h ai fs tr = (Inr [summaries_part ss], tr @ summarization_trace h fs)"
proof -
  from summarize_loop_trace [of fs h ai "[]" tr] obtain ss where
    "length ss = length fs" and "summarize_loop h ai fs [] tr = (Inr ss, tr @ summarization_trace h fs)"
    by auto
  with assms show ?thesis
    by (intro exI [of _ ss]) (simp add: processingParts_of_def task_defs summaries_part_def)
qed

lemma summarization_trace_calls:
  "filter is_summarize_call (summarization_trace h fs) =
     map (\<lambda>p. Call (summarizeRequest p)) (filter_non_null (map (prepareFilePart h) fs))"
  by (induction fs)
     (auto simp: summarization_trace_def is_summarize_call_iff sleep_not_summarize split: option.splits)

lemma summarization_trace_pauses:
  "length (filter (\<lambda>ev. ev = Sleep 500) (summarization_trace h fs)) = length fs"
  by (induction fs) (auto simp: summarization_trace_def split: option.splits)

lemma analysis_events_not_summarize:
  assumes "set evs \<subseteq> {Call (analysisRequest2 m P), Call (analysisRequest2 m' P)} \<union> range Sleep"
  shows "filter is_summarize_call evs = []"
  using assms analysis_not_summarize sleep_not_summarize
  by (auto simp: filter_empty_conv)

lemma analyzeFilesForNovelty2_direct:
  assumes "length fs \<le> 2"
  shows "\<exists>res evs.
           analyzeFilesForNovelty2 h ai fs tr =
             (res, tr @ Call (analysisRequest2 ''gemini-3-pro-preview''
                               (filter_non_null (map (prepareFilePart h) fs))) # evs) \<and>
           set evs \<subseteq> {Call (analysisRequest2 ''gemini-3-pro-preview'' (filter_non_null (map (prepareFilePart h) fs))),
                        Call (analysisRequest2 ''gemini-2.5-flash'' (filter_non_null (map (prepareFilePart h) fs)))} \<union>
                       range Sleep"
proof -
  let ?P = "filter_non_null (map (prepareFilePart h) fs)"
  obtain res tr' where run: "analysis_tiers h ai ?P tr = (res, tr')"
    by (cases "analysis_tiers h ai ?P tr")
  from analysis_tiers_trace [OF run] obtain evs where
    "tr' = tr @ Call (analysisRequest2 ''gemini-3-pro-preview'' ?P) # evs" and
    "set evs \<subseteq> {Call (analysisRequest2 ''gemini-3-pro-preview'' ?P),
                  Call (analysisRequest2 ''gemini-2.5-flash'' ?P)} \<union> range Sleep"
    by blast
  moreover have "analyzeFilesForNovelty2 h ai fs tr = (res, tr')"
    using run processingParts_of_direct [OF assms, of h ai tr]
    by (simp add: analyzeFilesForNovelty2_def task_bind_def)
  ultimately show ?thesis
    by blast
qed

lemma analyzeFilesForNovelty2_map_reduce:
  assumes "length fs > 2"
  shows "\<exists>res ss evs.
           length ss = length fs \<and>
           analyzeFilesForNovelty2 h ai fs tr =
             (res, tr @ summarization_trace h fs @
                   Call (analysisRequest2 ''gemini-3-pro-preview'' [summaries_part ss]) # evs) \<and>
           set evs \<subseteq> {Call (analysisRequest2 ''gemini-3-pro-preview'' [summaries_part ss]),
                        Call (analysisRequest2 ''gemini-2.5-flash'' [summaries_part ss])} \<union> range Sleep"
proof -
  from processingParts_of_map_reduce [OF assms, of h ai tr] obtain ss where
    len: "length ss = length fs" and
    pp: "processingParts_of h ai fs tr = (Inr [summaries_part ss], tr @ summarization_trace h fs)"
    by blast
  let ?P = "[summaries_part ss]"
  obtain res tr' where run: "analysis_tiers h ai ?P (tr @ summarization_trace h fs) = (res, tr')"
    by (cases "analysis_tiers h ai ?P (tr @ summarization_trace h fs)")
  from analysis_tiers_trace [OF run] obtain evs where
    "tr' = (tr @ summarization_trace h fs) @ Call (analysisRequest2 ''gemini-3-pro-preview'' ?P) # evs" and
    "set evs \<subseteq> {Call (analysisRequest2 ''gemini-3-pro-preview'' ?P),
                  Call (analysisRequest2 ''gemini-2.5-flash'' ?P)} \<union> range Sleep"
    by blast
  moreover have "analyzeFilesForNovelty2 h ai fs tr = (res, tr')"
    using run pp by (simp add: analyzeFilesForNovelty2_def task_bind_def)
  ultimately show ?thesis
    using len by (intro exI [of _ res] exI [of _ ss] exI [of _ evs]) simp
qed

lemma direct_parts_eq:
  "filter_non_null (map (prepareFilePart h) fs) =
     map (\<lambda>f. the (prepareFilePart h f)) (filter supported_format fs)"
proof (induction fs)
  case Nil
  show ?case by simp
next
  case (Cons f fs)
  then show ?case
    using prepareFilePart_supported [of h f] by (cases "prepareFilePart h f") auto
qed

lemma supported_examples:
  "supported_format paper_pdf" "\<not> supported_format main_TEX" "supported_format notes_txt"
  by (simp_all add: supported_format_def paper_pdf_def main_TEX_def notes_txt_def endsWith_def)

text \<open>
  Claim C4. With at most two documents the second listing of \<open>analyzeFilesForNovelty\<close>
  sends no summarization request: everything it adds to the trace is the analysis request (on
  the preferred tier first, then possibly repeated or sent to the fallback tier) and backoff
  pauses. The parts attached to that request, before the prompt, are the parts of the
  documents of a supported format, one each and in order; a document of another format
  contributes none.
\<close>

theorem direct_inclusion_parts:
  assumes "length fs \<le> 2"
  shows "(\<exists>res evs.
            analyzeFilesForNovelty2 h ai fs tr =
              (res, tr @ Call (analysisRequest2 ''gemini-3-pro-preview''
                                (filter_non_null (map (prepareFilePart h) fs))) # evs) \<and>
            set evs \<subseteq>
              {Call (analysisRequest2 ''gemini-3-pro-preview'' (filter_non_null (map (prepareFilePart h) fs))),
               Call (analysisRequest2 ''gemini-2.5-flash'' (filter_non_null (map (prepareFilePart h) fs)))} \<union>
              range Sleep \<and>
            filter is_summarize_call
              (Call (analysisRequest2 ''gemini-3-pro-preview''
                       (filter_non_null (map (prepareFilePart h) fs))) # evs) = []) \<and>
         (\<forall>m. contents (analysisRequest2 m (filter_non_null (map (prepareFilePart h) fs))) =
                Parts (filter_non_null (map (prepareFilePart h) fs) @ [TextPart analysisPrompt2])) \<and>
         filter_non_null (map (prepareFilePart h) fs) =
           map (\<lambda>f. the (prepareFilePart h f)) (filter supported_format fs) \<and>
         length (filter_non_null (map (prepareFilePart h) fs)) = length (filter supported_format fs)"
proof -
  let ?P = "filter_non_null (map (prepareFilePart h) fs)"
  from analyzeFilesForNovelty2_direct [OF assms, of h ai tr] obtain res evs where
    run: "analyzeFilesForNovelty2 h ai fs tr =
            (res, tr @ Call (analysisRequest2 ''gemini-3-pro-preview'' ?P) # evs)" and
    evs: "set evs \<subseteq> {Call (analysisRequest2 ''gemini-3-pro-preview'' ?P),
                       Call (analysisRequest2 ''gemini-2.5-flash'' ?P)} \<union> range Sleep"
    by blast
  have "filter is_summarize_call (Call (analysisRequest2 ''gemini-3-pro-preview'' ?P) # evs) = []"
    using analysis_events_not_summarize [OF evs] analysis_not_summarize by simp
  with run evs have first: "\<exists>res evs.
      analyzeFilesForNovelty2 h ai fs tr =
        (res, tr @ Call (analysisRequest2 ''gemini-3-pro-preview'' ?P) # evs) \<and>
      set evs \<subseteq> {Call (analysisRequest2 ''gemini-3-pro-preview'' ?P),
                   Call (analysisRequest2 ''gemini-2.5-flash'' ?P)} \<union> range Sleep \<and>
      filter is_summarize_call (Call (analysisRequest2 ''gemini-3-pro-preview'' ?P) # evs) = []"
    by blast
  have second: "\<forall>m. contents (analysisRequest2 m ?P) = Parts (?P @ [TextPart analysisPrompt2])"
    by (simp add: analysisRequest2_def)
  from first second direct_parts_eq [of h fs] length_direct_parts [of h fs] show ?thesis
    by blast
qed

theorem direct_inclusion_parts_witness:
  "length [paper_pdf, main_TEX] \<le> 2 \<and>
   filter is_summarize_call
     (snd (analyzeFilesForNovelty2 stub_host (always_answers (Some ''{}'')) [paper_pdf, main_TEX] [])) = [] \<and>
   length (filter_non_null (map (prepareFilePart stub_host) [paper_pdf, main_TEX])) = 1"
proof -
  have two: "length [paper_pdf, main_TEX] \<le> 2"
    by simp
  note inst = direct_inclusion_parts [OF two, where h = stub_host and ai = "always_answers (Some ''{}'')"
      and tr = "[]"]
  from inst obtain res evs where
    run: "analyzeFilesForNovelty2 stub_host (always_answers (Some ''{}'')) [paper_pdf, main_TEX] [] =
        (res, [] @ Call (analysisRequest2 ''gemini-3-pro-preview''
                     (filter_non_null (map (prepareFilePart stub_host) [paper_pdf, main_TEX]))) # evs)" and
    none: "filter is_summarize_call
        (Call (analysisRequest2 ''gemini-3-pro-preview''
                 (filter_non_null (map (prepareFilePart stub_host) [paper_pdf, main_TEX]))) # evs) = []"
    by blast
  from run none have a: "filter is_summarize_call
     (snd (analyzeFilesForNovelty2 stub_host (always_answers (Some ''{}'')) [paper_pdf, main_TEX] [])) = []"
    by simp
  from inst have "length (filter_non_null (map (prepareFilePart stub_host) [paper_pdf, main_TEX])) =
      length (filter supported_format [paper_pdf, main_TEX])"
    by blast
  then have b: "length (filter_non_null (map (prepareFilePart stub_host) [paper_pdf, main_TEX])) = 1"
    by (simp add: supported_examples)
  from two a b show ?thesis
    by blast
qed

text \<open>
  Claim C5, amended. With more than two documents the trace of the second listing of
  \<open>analyzeFilesForNovelty\<close> is: for each document in order, its summarization request if
  the document has a supported format and nothing if it has not, then a pause of 500
  milliseconds; after all of them the first analysis request, which carries the combined
  summaries only. So there is one summarization call per supported document, one pause per
  document, and no summarization call after the analysis has begun.
\<close>

theorem map_reduce_order:
  assumes "length fs > 2"
  shows "(\<exists>res ss evs.
            length ss = length fs \<and>
            analyzeFilesForNovelty2 h ai fs tr =
              (res, tr @ summarization_trace h fs @
                    Call (analysisRequest2 ''gemini-3-pro-preview'' [summaries_part ss]) # evs) \<and>
            set evs \<subseteq> {Call (analysisRequest2 ''gemini-3-pro-preview'' [summaries_part ss]),
                         Call (analysisRequest2 ''gemini-2.5-flash'' [summaries_part ss])} \<union> range Sleep \<and>
            filter is_summarize_call
              (Call (analysisRequest2 ''gemini-3-pro-preview'' [summaries_part ss]) # evs) = []) \<and>
         filter is_summarize_call (summarization_trace h fs) =
           map (\<lambda>f. Call (summarizeRequest (the (prepareFilePart h f)))) (filter supported_format fs) \<and>
         length (filter (\<lambda>ev. ev = Sleep 500) (summarization_trace h fs)) = length fs"
proof -
  from analyzeFilesForNovelty2_map_reduce [OF assms, of h ai tr] obtain res ss evs where
    len: "length ss = length fs" and
    run: "analyzeFilesForNovelty2 h ai fs tr =
            (res, tr @ summarization_trace h fs @
                  Call (analysisRequest2 ''gemini-3-pro-preview'' [summaries_part ss]) # evs)" and
    evs: "set evs \<subseteq> {Call (analysisRequest2 ''gemini-3-pro-preview'' [summaries_part ss]),
                       Call (analysisRequest2 ''gemini-2.5-flash'' [summaries_part ss])} \<union> range Sleep"
    by blast
  have "filter is_summarize_call
          (Call (analysisRequest2 ''gemini-3-pro-preview'' [summaries_part ss]) # evs) = []"
    using analysis_events_not_summarize [OF evs] analysis_not_summarize by simp
  with len run evs have first: "\<exists>res ss evs.
      length ss = length fs \<and>
      analyzeFilesForNovelty2 h ai fs tr =
        (res, tr @ summarization_trace h fs @
              Call (analysisRequest2 ''gemini-3-pro-preview'' [summaries_part ss]) # evs) \<and>
      set evs \<subseteq> {Call (analysisRequest2 ''gemini-3-pro-preview'' [summaries_part ss]),
                   Call (analysisRequest2 ''gemini-2.5-flash'' [summaries_part ss])} \<union> range Sleep \<and>
      filter is_summarize_call
        (Call (analysisRequest2 ''gemini-3-pro-preview'' [summaries_part ss]) # evs) = []"
    by blast
  have second: "filter is_summarize_call (summarization_trace h fs) =
      map (\<lambda>f. Call (summarizeRequest (the (prepareFilePart h f)))) (filter supported_format fs)"
    by (simp add: summarization_trace_calls direct_parts_eq)
  from first second summarization_trace_pauses [of h fs] show ?thesis
    by blast
qed

lemma summarization_trace_three:
  "summarization_trace stub_host [paper_pdf, main_TEX, notes_txt] =
     [Call (summarizeRequest (InlineData ''application/pdf'' ''JVBERi0='')), Sleep 500,
      Sleep 500,
      Call (summarizeRequest (TextPart (''[Source Document: notes.txt]'' @ nl @ ''aGk='' @ nl @ ''---''))),
      Sleep 500]"
  by (simp add: summarization_trace_def prepareFilePart_def paper_pdf_def main_TEX_def notes_txt_def
        stub_host_def endsWith_def cleanBase64_def dot_plus_then_def isLineTerminator_def
        decodeBase64Text_def)

theorem map_reduce_order_witness:
  "length [paper_pdf, main_TEX, notes_txt] > 2 \<and>
   take 5 (snd (analyzeFilesForNovelty2 stub_host (always_answers (Some ''{}''))
                  [paper_pdf, main_TEX, notes_txt] [])) =
     [Call (summarizeRequest (InlineData ''application/pdf'' ''JVBERi0='')), Sleep 500,
      Sleep 500,
      Call (summarizeRequest (TextPart (''[Source Document: notes.txt]'' @ nl @ ''aGk='' @ nl @ ''---''))),
      Sleep 500]"
proof -
  have three: "length [paper_pdf, main_TEX, notes_txt] > 2"
    by simp
  from map_reduce_order [OF three, where h = stub_host and ai = "always_answers (Some ''{}'')" and tr = "[]"]
  obtain res ss evs where
    "analyzeFilesForNovelty2 stub_host (always_answers (Some ''{}'')) [paper_pdf, main_TEX, notes_txt] [] =
       (res, [] @ summarization_trace stub_host [paper_pdf, main_TEX, notes_txt] @
             Call (analysisRequest2 ''gemini-3-pro-preview'' [summaries_part ss]) # evs)"
    by blast
  then have "take 5 (snd (analyzeFilesForNovelty2 stub_host (always_answers (Some ''{}''))
                  [paper_pdf, main_TEX, notes_txt] [])) =
      take 5 (summarization_trace stub_host [paper_pdf, main_TEX, notes_txt] @
             Call (analysisRequest2 ''gemini-3-pro-preview'' [summaries_part ss]) # evs)"
    by simp
  also have "\<dots> = summarization_trace stub_host [paper_pdf, main_TEX, notes_txt]"
    by (simp add: summarization_trace_three)
  finally show ?thesis
    using three by (simp add: summarization_trace_three)
qed

text \<open>
  Claim C5 as stated fails: of three documents, one with the name \<open>Main.TEX\<close> and the
  declared type \<open>application/x-tex\<close>, only two are summarized by a provider call.
\<close>

theorem summarization_skips_unsupported:
  "length (filter is_summarize_call
     (snd (analyzeFilesForNovelty2 stub_host (always_answers (Some ''{}''))
             [paper_pdf, main_TEX, notes_txt] []))) = 2 \<and>
   length [paper_pdf, main_TEX, notes_txt] = 3"
proof -
  have three: "length [paper_pdf, main_TEX, notes_txt] > 2"
    by simp
  from analyzeFilesForNovelty2_map_reduce [OF three, of stub_host "always_answers (Some ''{}'')" "[]"]
  obtain res ss evs where
    run: "analyzeFilesForNovelty2 stub_host (always_answers (Some ''{}'')) [paper_pdf, main_TEX, notes_txt] [] =
       (res, [] @ summarization_trace stub_host [paper_pdf, main_TEX, notes_txt] @
             Call (analysisRequest2 ''gemini-3-pro-preview'' [summaries_part ss]) # evs)" and
    evs: "set evs \<subseteq> {Call (analysisRequest2 ''gemini-3-pro-preview'' [summaries_part ss]),
                       Call (analysisRequest2 ''gemini-2.5-flash'' [summaries_part ss])} \<union> range Sleep"
    by blast
  have "filter is_summarize_call
     (snd (analyzeFilesForNovelty2 stub_host (always_answers (Some ''{}''))
             [paper_pdf, main_TEX, notes_txt] [])) =
     filter is_summarize_call (summarization_trace stub_host [paper_pdf, main_TEX, notes_txt])"
    using analysis_events_not_summarize [OF evs] analysis_not_summarize
    by (simp add: run)
  also have "length \<dots> = length (filter supported_format [paper_pdf, main_TEX, notes_txt])"
    by (simp only: summarization_trace_calls length_map length_direct_parts)
  also have "\<dots> = 2"
    by (simp add: supported_examples)
  finally show ?thesis
    by simp
qed

section \<open>Properties of the section-drafting handler\<close>

text \<open>
  Claim C7. Both listings of \<open>handleGenerateSection\<close>: when the snapshot holds no
  analysis (its \<open>noveltyClaim\<close> is empty, as in the initial state), the handler only
  alerts the user. The trace is returned as it was, so no provider call is made, and no
  updater is handed to \<open>setState\<close>, so the state, its sections included, stays as it is.
\<close>

theorem drafting_needs_analysis:
  "(noveltyClaim state = [] \<longrightarrow>
      handleGenerateSection h ai state sectionId tr = (Alerted ''Run Analysis first.'', tr) \<and>
      apply_outcome (fst (handleGenerateSection h ai state sectionId tr)) latest = latest) \<and>
   (noveltyClaim state' = [] \<longrightarrow>
      handleGenerateSection1 h ai state' sectionId tr = (Alerted ''Run 'Deep Analysis' first.'', tr) \<and>
      apply_outcome (fst (handleGenerateSection1 h ai state' sectionId tr)) latest' = latest')"
  by (simp add: handleGenerateSection_def handleGenerateSection1_def apply_outcome_def)

theorem drafting_needs_analysis_witness:
  "noveltyClaim initialState = [] \<and>
   handleGenerateSection stub_host (always_answers (Some ''Draft.'')) initialState ''Introduction'' [] =
     (Alerted ''Run Analysis first.'', []) \<and>
   sections (apply_outcome
      (fst (handleGenerateSection stub_host (always_answers (Some ''Draft.'')) initialState ''Introduction'' []))
      initialState) = initialSections \<and>
   noveltyClaim initialState1 = [] \<and>
   handleGenerateSection1 stub_host (always_answers (Some ''Draft.'')) initialState1 ''Introduction'' [] =
     (Alerted ''Run 'Deep Analysis' first.'', [])"
proof -
  have a: "noveltyClaim initialState = []" and b: "noveltyClaim initialState1 = []"
    by (simp_all add: initialState_def initialState1_def)
  have c: "sections initialState = initialSections"
    by (simp add: initialState_def)
  note inst = drafting_needs_analysis [where state = initialState and state' = initialState1
      and h = stub_host and ai = "always_answers (Some ''Draft.'')" and sectionId = "''Introduction''"
      and tr = "[]" and latest = initialState and latest' = initialState1]
  from inst a have d:
    "handleGenerateSection stub_host (always_answers (Some ''Draft.'')) initialState ''Introduction'' [] =
       (Alerted ''Run Analysis first.'', [])"
    and e: "apply_outcome
       (fst (handleGenerateSection stub_host (always_answers (Some ''Draft.'')) initialState ''Introduction'' []))
       initialState = initialState"
    by blast+
  from inst b have f:
    "handleGenerateSection1 stub_host (always_answers (Some ''Draft.'')) initialState1 ''Introduction'' [] =
       (Alerted ''Run 'Deep Analysis' first.'', [])"
    by blast
  from e c have g: "sections (apply_outcome
      (fst (handleGenerateSection stub_host (always_answers (Some ''Draft.'')) initialState ''Introduction'' []))
      initialState) = initialSections"
    by simp
  from a d g b f show ?thesis
    by blast
qed

lemma generateSectionContent2_resolves:
  "\<exists>c tr'. generateSectionContent2 h ai t ctx tr = (Inr c, tr')"
proof -
  let ?run = "callWithRetry2
     (generateContent ai
        \<lparr>model = ''gemini-2.5-flash'',
         contents = Parts (filesToPartsLimited h (ctx_files ctx) @
           [TextPart (sectionPrompt2 (ctx_targetJournal ctx) (ctx_title ctx) (ctx_novelty ctx)
              (ctx_methodologyPlan ctx) (PaperSectionType_value t)
              (join nl (map (\<lambda>(t, c). ''['' @ t @ '']: '' @ take 500 c @ ''...'') (ctx_otherSections ctx))))]),
         config = None\<rparr>) 3 2000 tr"
  obtain r ta where run: "?run = (r, ta)"
    by (cases ?run)
  then show ?thesis
    by (cases r) (simp_all add: generateSectionContent2_def Let_def task_defs)
qed

lemma generateSectionContent1_resolves:
  "\<exists>c tr'. generateSectionContent1 h ai t ctx tr = (Inr c, tr')"
proof -
  let ?run = "callWithRetry1
     (generateContent ai
        \<lparr>model = ''gemini-2.5-flash'',
         contents = Parts (prepareFileParts h (ctx_files ctx) @
           [TextPart (sectionPrompt1 (ctx_targetJournal ctx) (ctx_title ctx) (ctx_novelty ctx)
              (ctx_methodologyPlan ctx) (PaperSectionType_value t)
              (join nl (map (\<lambda>(t, c). ''['' @ t @ '' Summary]: '' @ take 500 c @ ''...'')
                          (ctx_otherSections ctx))))]),
         config = None\<rparr>) 3 2000 tr"
  obtain r ta where run: "?run = (r, ta)"
    by (cases ?run)
  then show ?thesis
    by (cases r) (simp_all add: generateSectionContent1_def Let_def task_defs)
qed

lemma handleGenerateSection_drafts:
  assumes "noveltyClaim state \<noteq> []" and "find (\<lambda>s. section_id s = A) (sections state) = Some sec"
  shows "\<exists>c tr'. handleGenerateSection h ai state A tr =
           (Drafted (markGenerating A) (commitContent A c), tr')"
proof -
  let ?ctx = "\<lparr>ctx_files = files state, ctx_title = paperTitle state, ctx_gap = researchGap state,
                ctx_novelty = noveltyClaim state, ctx_targetJournal = targetJournal state,
                ctx_methodologyPlan = methodologyPlan state,
                ctx_otherSections =
                  map (\<lambda>s. (PaperSectionType_value (section_type s), content s))
                    (filter (\<lambda>s. section_id s \<noteq> A \<and> length (content s) > 0) (sections state))\<rparr>"
  from generateSectionContent2_resolves [of h ai "section_type sec" ?ctx tr] obtain c tr' where
    "generateSectionContent2 h ai (section_type sec) ?ctx tr = (Inr c, tr')"
    by blast
  with assms show ?thesis
    by (auto simp: handleGenerateSection_def)
qed

lemma handleGenerateSection_Drafted:
  assumes "handleGenerateSection h ai state A tr = (Drafted mark commit, tr')"
  shows "\<exists>c. mark = markGenerating A \<and> commit = commitContent A c"
  using assms
  by (auto simp: handleGenerateSection_def split: if_splits option.splits prod.splits sum.splits)

lemma handleGenerateSection1_Drafted:
  assumes "handleGenerateSection1 h ai state A tr = (Drafted mark commit, tr')"
  shows "\<exists>c. mark = markGenerating A \<and> commit = commitContent A c"
  using assms
  by (auto simp: handleGenerateSection1_def split: if_splits option.splits prod.splits sum.splits)

lemma commitContent_only_sections:
  "commitContent A c latest = latest\<lparr>sections := sections (commitContent A c latest)\<rparr>"
  by (simp add: commitContent_def)

lemma commitContent_length:
  "length (sections (commitContent A c latest)) = length (sections latest)"
  by (simp add: commitContent_def)

lemma commitContent_nth:
  "i < length (sections latest) \<Longrightarrow>
   sections (commitContent A c latest) ! i =
     (if section_id (sections latest ! i) = A
      then (sections latest ! i)\<lparr>isGenerating := False, content := c\<rparr>
      else sections latest ! i)"
  by (simp add: commitContent_def)

lemma commitContent_chat: "chatHistory (commitContent A c latest) = chatHistory latest"
  by (simp add: commitContent_def)

lemma commitContent_appendChat:
  "commitContent A c (appendChat msg latest) = appendChat msg (commitContent A c latest)"
  by (simp add: commitContent_def appendChat_def)

lemma commitContent_handleUpdateSection:
  "B \<noteq> A \<Longrightarrow>
   commitContent A c (handleUpdateSection B t latest) = handleUpdateSection B t (commitContent A c latest)"
  by (simp add: commitContent_def handleUpdateSection_def)

lemma generateSectionContent2_answer:
  "fst (generateSectionContent2 h (always_answers x) t ctx tr) = Inr (or_else x ''Failed.'')"
proof -
  have "callWithRetry2 (generateContent (always_answers x) req) 3 2000 tr =
      (Inr \<lparr>response_text = x\<rparr>, tr @ [Call req])" for req
    by (rule callWithRetry2_success) (simp add: generateContent_def always_answers_def)
  then show ?thesis
    by (simp add: generateSectionContent2_def Let_def task_defs)
qed

lemma find_Introduction:
  "find (\<lambda>s. section_id s = ''Introduction'') (sections analysed) =
     Some \<lparr>section_id = ''Introduction'', section_type = Introduction, title = ''Introduction'',
            content = [], isGenerating = False, section_notes = []\<rparr>"
  by (simp add: analysed_def initialState_def initialSections_def INITIAL_SECTIONS_def)

lemma handleGenerateSection_example:
  "fst (handleGenerateSection stub_host (always_answers (Some ''Draft.'')) analysed ''Introduction'' []) =
     Drafted (markGenerating ''Introduction'') (commitContent ''Introduction'' ''Draft.'')"
proof -
  let ?ctx = "\<lparr>ctx_files = files analysed, ctx_title = paperTitle analysed, ctx_gap = researchGap analysed,
                ctx_novelty = noveltyClaim analysed, ctx_targetJournal = targetJournal analysed,
                ctx_methodologyPlan = methodologyPlan analysed,
                ctx_otherSections =
                  map (\<lambda>s. (PaperSectionType_value (section_type s), content s))
                    (filter (\<lambda>s. section_id s \<noteq> ''Introduction'' \<and> length (content s) > 0)
                       (sections analysed))\<rparr>"
  obtain r tb where g: "generateSectionContent2 stub_host (always_answers (Some ''Draft.'')) Introduction ?ctx [] = (r, tb)"
    by (cases "generateSectionContent2 stub_host (always_answers (Some ''Draft.'')) Introduction ?ctx []")
  with generateSectionContent2_answer [of stub_host "Some ''Draft.''" Introduction ?ctx "[]"]
  have r: "r = Inr ''Draft.''"
    by (simp add: or_else_def)
  have n: "noveltyClaim analysed \<noteq> []"
    by (simp add: analysed_def)
  show ?thesis
    unfolding handleGenerateSection_def find_Introduction using n g r by simp
qed

text \<open>
  Claim C8. A drafting task that found its section always completes with a commit, and the
  commit is \<open>commitContent A c\<close> for the text \<open>c\<close> that drafting returned (the draft
  or the degraded error text). Applied to whatever state is the latest at commit time, it
  leaves the chat transcript and every field but \<open>sections\<close> as they are, keeps the number
  of sections, changes in a section with id \<open>A\<close> only \<open>isGenerating\<close> and
  \<open>content\<close>, and leaves every other section as it is. It commutes with a chat append and
  with an edit of another section, so neither is lost whichever is committed first. The
  earlier listing, whose state has no chat, does the same.
\<close>

theorem draft_commit_frame:
  "(noveltyClaim state \<noteq> [] \<and> find (\<lambda>s. section_id s = A) (sections state) = Some sec \<longrightarrow>
      (\<exists>c trb. handleGenerateSection h ai state A tr =
                  (Drafted (markGenerating A) (commitContent A c), trb))) \<and>
   (handleGenerateSection h ai state A tr = (Drafted mark commit, tr') \<longrightarrow>
      (\<exists>c. commit = commitContent A c \<and>
           chatHistory (commit latest) = chatHistory latest \<and>
           commit latest = latest\<lparr>sections := sections (commit latest)\<rparr> \<and>
           length (sections (commit latest)) = length (sections latest) \<and>
           (\<forall>i<length (sections latest).
              sections (commit latest) ! i =
                (if section_id (sections latest ! i) = A
                 then (sections latest ! i)\<lparr>isGenerating := False, content := c\<rparr>
                 else sections latest ! i)) \<and>
           commit (appendChat msg latest) = appendChat msg (commit latest) \<and>
           (B \<noteq> A \<longrightarrow>
              commit (handleUpdateSection B t latest) = handleUpdateSection B t (commit latest)))) \<and>
   (handleGenerateSection1 h ai state' A tr = (Drafted mark' commit', tr') \<longrightarrow>
      (\<exists>c. commit' = commitContent A c \<and>
           commit' latest' = latest'\<lparr>sections := sections (commit' latest')\<rparr> \<and>
           length (sections (commit' latest')) = length (sections latest') \<and>
           (\<forall>i<length (sections latest').
              sections (commit' latest') ! i =
                (if section_id (sections latest' ! i) = A
                 then (sections latest' ! i)\<lparr>isGenerating := False, content := c\<rparr>
                 else sections latest' ! i)) \<and>
           (B \<noteq> A \<longrightarrow>
              commit' (handleUpdateSection B t latest') = handleUpdateSection B t (commit' latest'))))"
proof (intro conjI impI)
  assume "noveltyClaim state \<noteq> [] \<and> find (\<lambda>s. section_id s = A) (sections state) = Some sec"
  then show "\<exists>c trb. handleGenerateSection h ai state A tr =
      (Drafted (markGenerating A) (commitContent A c), trb)"
    using handleGenerateSection_drafts [of state A sec h ai tr] by blast
next
  assume "handleGenerateSection h ai state A tr = (Drafted mark commit, tr')"
  from handleGenerateSection_Drafted [OF this] obtain c where c: "commit = commitContent A c"
    by blast
  show "\<exists>c. commit = commitContent A c \<and>
           chatHistory (commit latest) = chatHistory latest \<and>
           commit latest = latest\<lparr>sections := sections (commit latest)\<rparr> \<and>
           length (sections (commit latest)) = length (sections latest) \<and>
           (\<forall>i<length (sections latest).
              sections (commit latest) ! i =
                (if section_id (sections latest ! i) = A
                 then (sections latest ! i)\<lparr>isGenerating := False, content := c\<rparr>
                 else sections latest ! i)) \<and>
           commit (appendChat msg latest) = appendChat msg (commit latest) \<and>
           (B \<noteq> A \<longrightarrow>
              commit (handleUpdateSection B t latest) = handleUpdateSection B t (commit latest))"
    unfolding c
    using commitContent_chat [of A c latest] commitContent_only_sections [of A c latest]
      commitContent_length [of A c latest] commitContent_nth [of _ latest A c]
      commitContent_appendChat [of A c msg latest]
      commitContent_handleUpdateSection [of B A c t latest]
    by (intro exI [of _ c]) blast
next
  assume "handleGenerateSection1 h ai state' A tr = (Drafted mark' commit', tr')"
  from handleGenerateSection1_Drafted [OF this] obtain c where c: "commit' = commitContent A c"
    by blast
  show "\<exists>c. commit' = commitContent A c \<and>
           commit' latest' = latest'\<lparr>sections := sections (commit' latest')\<rparr> \<and>
           length (sections (commit' latest')) = length (sections latest') \<and>
           (\<forall>i<length (sections latest').
              sections (commit' latest') ! i =
                (if section_id (sections latest' ! i) = A
                 then (sections latest' ! i)\<lparr>isGenerating := False, content := c\<rparr>
                 else sections latest' ! i)) \<and>
           (B \<noteq> A \<longrightarrow>
              commit' (handleUpdateSection B t latest') = handleUpdateSection B t (commit' latest'))"
    unfolding c
    using commitContent_only_sections [of A c latest']
      commitContent_length [of A c latest'] commitContent_nth [of _ latest' A c]
      commitContent_handleUpdateSection [of B A c t latest']
    by (intro exI [of _ c]) blast
qed

lemma generateSectionContent1_answer:
  "fst (generateSectionContent1 h (always_answers x) t ctx tr) = Inr (or_else x ''Failed to generate content.'')"
proof -
  have "callWithRetry1 (generateContent (always_answers x) req) 3 2000 tr =
      (Inr \<lparr>response_text = x\<rparr>, tr @ [Call req])" for req
    by (rule callWithRetry1_success) (simp add: generateContent_def always_answers_def)
  then show ?thesis
    by (simp add: generateSectionContent1_def Let_def task_defs)
qed

lemma find_Introduction1:
  "find (\<lambda>s. section_id s = ''Introduction'') (sections analysed1) =
     Some \<lparr>section_id = ''Introduction'', section_type = Introduction, title = ''Introduction'',
            content = [], isGenerating = False, section_notes = []\<rparr>"
  by (simp add: analysed1_def initialState1_def initialSections_def INITIAL_SECTIONS_def)

lemma handleGenerateSection1_example:
  "fst (handleGenerateSection1 stub_host (always_answers (Some ''Draft.'')) analysed1 ''Introduction'' []) =
     Drafted (markGenerating ''Introduction'') (commitContent ''Introduction'' ''Draft.'')"
proof -
  let ?ctx = "\<lparr>ctx_files = files analysed1, ctx_title = paperTitle analysed1, ctx_gap = researchGap analysed1,
                ctx_novelty = noveltyClaim analysed1, ctx_targetJournal = targetJournal analysed1,
                ctx_methodologyPlan = methodologyPlan analysed1,
                ctx_otherSections =
                  map (\<lambda>s. (PaperSectionType_value (section_type s), content s))
                    (filter (\<lambda>s. section_id s \<noteq> ''Introduction'' \<and> length (content s) > 0)
                       (sections analysed1)),
                ctx_expectedResults = expectedResults analysed1\<rparr>"
  obtain r tb where g: "generateSectionContent1 stub_host (always_answers (Some ''Draft.'')) Introduction ?ctx [] = (r, tb)"
    by (cases "generateSectionContent1 stub_host (always_answers (Some ''Draft.'')) Introduction ?ctx []")
  with generateSectionContent1_answer [of stub_host "Some ''Draft.''" Introduction ?ctx "[]"]
  have r: "r = Inr ''Draft.''"
    by (simp add: or_else_def)
  have n: "noveltyClaim analysed1 \<noteq> []" and f: "files analysed1 = []"
    by (simp_all add: analysed1_def initialState1_def)
  show ?thesis
    unfolding handleGenerateSection1_def find_Introduction1 using n f g r by simp
qed

theorem draft_commit_frame_witness:
  "(\<exists>c trb. handleGenerateSection stub_host (always_answers (Some ''Draft.'')) analysed ''Introduction'' [] =
              (Drafted (markGenerating ''Introduction'') (commitContent ''Introduction'' c), trb)) \<and>
   chatHistory (commitContent ''Introduction'' ''Draft.'' (appendChat hello analysed)) = [hello] \<and>
   commitContent ''Introduction'' ''Draft.'' (handleUpdateSection ''Abstract'' ''Edited.'' analysed) =
     handleUpdateSection ''Abstract'' ''Edited.'' (commitContent ''Introduction'' ''Draft.'' analysed) \<and>
   commitContent ''Introduction'' ''Draft.'' (handleUpdateSection ''Abstract'' ''Edited.'' analysed1) =
     handleUpdateSection ''Abstract'' ''Edited.'' (commitContent ''Introduction'' ''Draft.'' analysed1) \<and>
   sections (commitContent ''Introduction'' ''Draft.'' analysed) ! 2 =
     (sections analysed ! 2)\<lparr>isGenerating := False, content := ''Draft.''\<rparr> \<and>
   sections (commitContent ''Introduction'' ''Draft.'' analysed) ! 1 = sections analysed ! 1"
proof -
  let ?ai = "always_answers (Some ''Draft.'')"
  let ?mark = "markGenerating ''Introduction'' :: ResearchState \<Rightarrow> ResearchState"
  let ?commit = "commitContent ''Introduction'' ''Draft.'' :: ResearchState \<Rightarrow> ResearchState"
  let ?mark' = "markGenerating ''Introduction'' :: ResearchState_base \<Rightarrow> ResearchState_base"
  let ?commit' = "commitContent ''Introduction'' ''Draft.'' :: ResearchState_base \<Rightarrow> ResearchState_base"
  let ?run = "handleGenerateSection stub_host ?ai analysed ''Introduction'' []"
  let ?run' = "handleGenerateSection1 stub_host ?ai analysed1 ''Introduction'' []"
  have n: "noveltyClaim analysed \<noteq> []"
    by (simp add: analysed_def)
  have run: "?run = (Drafted ?mark ?commit, snd ?run)"
    using handleGenerateSection_example by (simp add: prod_eq_iff)
  have run': "?run' = (Drafted ?mark' ?commit', snd ?run')"
    using handleGenerateSection1_example by (simp add: prod_eq_iff)
  have ne: "''Abstract'' \<noteq> ''Introduction''"
    by simp
  note one = draft_commit_frame [where state = analysed and A = "''Introduction''" and h = stub_host
      and ai = ?ai and tr = "[]" and mark = ?mark and commit = ?commit and tr' = "snd ?run"
      and B = "''Abstract''" and t = "''Edited.''" and msg = hello]
  note two = draft_commit_frame [where state' = analysed1 and A = "''Introduction''" and h = stub_host
      and ai = ?ai and tr = "[]" and mark' = ?mark' and commit' = ?commit' and tr' = "snd ?run'"
      and B = "''Abstract''" and t = "''Edited.''" and latest' = analysed1]
  have a: "\<exists>c trb. ?run = (Drafted (markGenerating ''Introduction'') (commitContent ''Introduction'' c), trb)"
    using one n find_Introduction by blast
  have "chatHistory (?commit (appendChat hello analysed)) = chatHistory (appendChat hello analysed)"
    using one [where latest = "appendChat hello analysed"] run by blast
  then have b: "chatHistory (?commit (appendChat hello analysed)) = [hello]"
    by (simp add: appendChat_def analysed_def initialState_def)
  have c: "?commit (handleUpdateSection ''Abstract'' ''Edited.'' analysed) =
      handleUpdateSection ''Abstract'' ''Edited.'' (?commit analysed)"
    using one [where latest = analysed] run ne by blast
  have d: "?commit' (handleUpdateSection ''Abstract'' ''Edited.'' analysed1) =
      handleUpdateSection ''Abstract'' ''Edited.'' (?commit' analysed1)"
    using two run' ne by blast
  have secs: "sections analysed = initialSections"
    by (simp add: analysed_def initialState_def)
  have ids: "length (sections analysed) = 9" "section_id (sections analysed ! 2) = ''Introduction''"
    "section_id (sections analysed ! 1) \<noteq> ''Introduction''"
    by (simp_all add: secs initialSections_def INITIAL_SECTIONS_def)
  from one [where latest = analysed] run have nth:
    "\<forall>i<length (sections analysed).
       sections (?commit analysed) ! i =
         (if section_id (sections analysed ! i) = ''Introduction''
          then (sections analysed ! i)\<lparr>isGenerating := False, content := ''Draft.''\<rparr>
          else sections analysed ! i)"
    by (metis commitContent_nth)
  have e: "sections (?commit analysed) ! 2 =
      (sections analysed ! 2)\<lparr>isGenerating := False, content := ''Draft.''\<rparr>"
    using nth ids by simp
  have f: "sections (?commit analysed) ! 1 = sections analysed ! 1"
    using nth ids by simp
  from a b c d e f show ?thesis
    by blast
qed

end
